theory Spec2Isabelle
  imports Main "HOL-Library.Word"
begin

unbundle bit_operations_syntax

section \<open>Common types\<close>

type_synonym uint8 = "8 word"
type_synonym uint16 = "16 word"
type_synonym uint32 = "32 word"

text \<open>
  Function pointers stored in callback slots are modelled by the name of the function
  they point to; a NULL slot is \<open>None\<close>.
\<close>

datatype callback =
    CB_free
  | CB_avr_attach | CB_avr_detach | CB_avr_reset | CB_avr_halt_request | CB_avr_halt_poll
  | CB_lpc43xx_mass_erase | CB_lpc43xx_flash_erase | CB_lpc43xx_wdt_kick

text \<open>
  Modelled from the spec: \<open>enum target_halt_reason\<close> is declared in target.h, which is
  not among the sources. The spec lists its values as not-halted/running,
  halted-by-request and halted-by-other-cause; the two the drivers name are
  \<open>TARGET_HALT_RUNNING\<close> and \<open>TARGET_HALT_REQUEST\<close>.
\<close>

datatype target_halt_reason = TARGET_HALT_RUNNING | TARGET_HALT_REQUEST | TARGET_HALT_OTHER

text \<open>The PDI debug context \<open>avr_pdi_t\<close>, with the three fields the drivers use.\<close>

record avr_pdi_t =
  idcode :: uint32
  dp_jd_index :: uint8
  halt_reason :: target_halt_reason

text \<open>A registered RAM window and a registered flash region (\<open>struct lpc_flash\<close>).\<close>

record target_ram =
  ram_start :: uint32
  ram_length :: uint32

record lpc_flash =
  f_start :: uint32
  f_length :: uint32
  f_blocksize :: uint32
  f_buf_size :: uint32
  f_erase :: "callback option"
  bank :: uint8
  base_sector :: uint8
  iap_entry :: uint32
  iap_ram :: uint32
  iap_msp :: uint32
  wdt_kick :: "callback option"

text \<open>
  The generic target object, restricted to the fields the three source files touch.
  \<open>priv\<close> is the driver-private pointer: \<open>True\<close> once it refers to the PDI context.
  The RAM, flash and command registries are lists in registration order.
\<close>

record target =
  cpuid :: uint32
  part_id :: uint16
  driver :: string
  core :: string
  priv :: bool
  priv_free :: "callback option"
  attach :: "callback option"
  detach :: "callback option"
  reset :: "callback option"
  halt_request :: "callback option"
  halt_poll :: "callback option"
  mass_erase :: "callback option"
  target_options :: uint32
  ram :: "target_ram list"
  flash :: "lpc_flash list"
  commands :: "(string \<times> string list) list"

section \<open>AVR PDI register protocol (src/target/avr_pdi.c)\<close>

definition IR_PDI :: uint32 where "IR_PDI = 0x7"
definition IR_BYPASS :: uint32 where "IR_BYPASS = 0xF"

definition PDI_BREAK :: uint8 where "PDI_BREAK = 0xBB"
definition PDI_DELAY :: uint8 where "PDI_DELAY = 0xDB"
definition PDI_EMPTY :: uint8 where "PDI_EMPTY = 0xEB"

definition PDI_LDCS :: uint8 where "PDI_LDCS = 0x80"
definition PDI_STCS :: uint8 where "PDI_STCS = 0xC0"

definition PDI_REG_STATUS :: uint8 where "PDI_REG_STATUS = 0"
definition PDI_REG_RESET :: uint8 where "PDI_REG_RESET = 1"
definition PDI_REG_CTRL :: uint8 where "PDI_REG_CTRL = 2"
definition PDI_REG_R3 :: uint8 where "PDI_REG_R3 = 3"
definition PDI_REG_R4 :: uint8 where "PDI_REG_R4 = 4"

definition PDI_RESET :: uint8 where "PDI_RESET = 0x59"

subsection \<open>The JTAG transport\<close>

text \<open>
  Every operation the driver issues on the scan chain is recorded, in order: an
  instruction-register write (device index, instruction) or a data-register shift
  (device index, byte shifted in). The number of transport transactions issued is the
  length of this log.
\<close>

datatype jtag_op = JTAG_WRITE_IR uint8 uint32 | JTAG_SHIFT_DR uint8 uint8

type_synonym jtag_log = "jtag_op list"

text \<open>
  Modelled from the spec: \<open>avr_jtag_shift_dr\<close> is declared in avr.h and defined outside
  the sources. The spec describes it as "a byte-wide data-register shift-and-capture
  primitive returning both success/failure and the captured response byte". What the
  device answers is a parameter of the model: a function from the operations issued so
  far (the current shift last) to the returned flag and the byte stored through the
  result pointer. The model only records the call and hands the answer back; which
  value of the flag each call site accepts is decided by the callers below, as in the
  source.
\<close>

type_synonym jtag_dev = "jtag_log \<Rightarrow> bool \<times> uint8"

definition avr_jtag_shift_dr ::
  "jtag_dev \<Rightarrow> uint8 \<Rightarrow> uint8 \<Rightarrow> jtag_log \<Rightarrow> (bool \<times> uint8) \<times> jtag_log" where
  "avr_jtag_shift_dr dev jd_index dr_in log =
     (let log' = log @ [JTAG_SHIFT_DR jd_index dr_in] in (dev log', log'))"

definition jtag_dev_write_ir :: "uint8 \<Rightarrow> uint32 \<Rightarrow> jtag_log \<Rightarrow> jtag_log" where
  "jtag_dev_write_ir jd_index ir log = log @ [JTAG_WRITE_IR jd_index ir]"

subsection \<open>Register write and read\<close>

text \<open>
  The condition of the source is a chain of \<open>||\<close>, evaluated left to right and
  stopping at the first operand that is true; each nested \<open>if\<close> below is one operand.
  In \<open>avr_pdi_reg_write\<close> both shifts are rejected when the primitive returns true.
\<close>

definition avr_pdi_reg_write ::
  "jtag_dev \<Rightarrow> avr_pdi_t \<Rightarrow> uint8 \<Rightarrow> uint8 \<Rightarrow> jtag_log \<Rightarrow> bool \<times> jtag_log" where
  "avr_pdi_reg_write dev pdi reg val log =
     (let command = PDI_STCS OR reg in
      if reg \<ge> 16 then (False, log)
      else
        let ((r1, result1), log1) = avr_jtag_shift_dr dev (dp_jd_index pdi) command log in
        if r1 then (False, log1)
        else if result1 \<noteq> PDI_EMPTY then (False, log1)
        else
          let ((r2, result2), log2) = avr_jtag_shift_dr dev (dp_jd_index pdi) val log1 in
          if r2 then (False, log2)
          else (result2 = PDI_EMPTY, log2))"

text \<open>
  In \<open>avr_pdi_reg_read\<close> the first shift is rejected when the primitive returns true, the
  second when it returns false (the source negates the second call only).
\<close>

definition avr_pdi_reg_read ::
  "jtag_dev \<Rightarrow> avr_pdi_t \<Rightarrow> uint8 \<Rightarrow> jtag_log \<Rightarrow> uint8 \<times> jtag_log" where
  "avr_pdi_reg_read dev pdi reg log =
     (let command = PDI_LDCS OR reg in
      if reg \<ge> 16 then (0xFF, log)
      else
        let ((r1, result1), log1) = avr_jtag_shift_dr dev (dp_jd_index pdi) command log in
        if r1 then (0xFF, log1)
        else if result1 \<noteq> PDI_EMPTY then (0xFF, log1)
        else
          let ((r2, result2), log2) = avr_jtag_shift_dr dev (dp_jd_index pdi) command log1 in
          if \<not> r2 then (0xFF, log2)
          else (result2, log2))"

subsection \<open>Reset, halt request, halt poll, attach and detach\<close>

text \<open>
  Modelled from the spec: \<open>raise_exception\<close> is declared in exception.h and defined
  outside the sources. The spec describes it as a "raised exception aborting an
  in-progress operation": it does not return to its caller. A function that may raise
  returns \<open>Inl\<close> of the exception, and the statements after the call are not run.
\<close>

datatype exception = EXCEPTION_ERROR string

definition avr_reset ::
  "jtag_dev \<Rightarrow> avr_pdi_t \<Rightarrow> jtag_log \<Rightarrow> (exception + unit) \<times> avr_pdi_t \<times> jtag_log" where
  "avr_reset dev pdi log =
     (let raised = Inl (EXCEPTION_ERROR ''Error resetting device, device in incorrect state\<newline>'') in
      case avr_pdi_reg_write dev pdi PDI_REG_RESET PDI_RESET log of (w1, log1) \<Rightarrow>
      if \<not> w1 then (raised, pdi, log1)
      else case avr_pdi_reg_read dev pdi PDI_REG_STATUS log1 of (v2, log2) \<Rightarrow>
      if v2 \<noteq> 0x00 then (raised, pdi, log2)
      else (Inr (), pdi, log2))"

definition avr_halt_request ::
  "jtag_dev \<Rightarrow> avr_pdi_t \<Rightarrow> jtag_log \<Rightarrow> (exception + unit) \<times> avr_pdi_t \<times> jtag_log" where
  "avr_halt_request dev pdi log =
     (let raised = Inl (EXCEPTION_ERROR ''Error halting device, device in incorrect state\<newline>'') in
      case avr_pdi_reg_write dev pdi PDI_REG_R4 1 log of (w1, log1) \<Rightarrow>
      if \<not> w1 then (raised, pdi, log1)
      else case avr_pdi_reg_read dev pdi PDI_REG_R3 log1 of (v2, log2) \<Rightarrow>
      if v2 \<noteq> 0x10 then (raised, pdi, log2)
      else case avr_pdi_reg_write dev pdi PDI_REG_RESET 0 log2 of (w3, log3) \<Rightarrow>
      if \<not> w3 then (raised, pdi, log3)
      else case avr_pdi_reg_read dev pdi PDI_REG_R3 log3 of (v4, log4) \<Rightarrow>
      if v4 \<noteq> 0x14 then (raised, pdi, log4)
      else case avr_pdi_reg_read dev pdi PDI_REG_R3 log4 of (v5, log5) \<Rightarrow>
      if v5 \<noteq> 0x04 then (raised, pdi, log5)
      else (Inr (), pdi\<lparr>halt_reason := TARGET_HALT_REQUEST\<rparr>, log5))"

definition avr_halt_poll :: "avr_pdi_t \<Rightarrow> target_halt_reason" where
  "avr_halt_poll pdi = halt_reason pdi"

definition avr_attach :: "avr_pdi_t \<Rightarrow> jtag_log \<Rightarrow> bool \<times> jtag_log" where
  "avr_attach pdi log = (True, jtag_dev_write_ir (dp_jd_index pdi) IR_PDI log)"

definition avr_detach :: "avr_pdi_t \<Rightarrow> jtag_log \<Rightarrow> jtag_log" where
  "avr_detach pdi log = jtag_dev_write_ir (dp_jd_index pdi) IR_BYPASS log"

text \<open>
  The five steps of the halt handshake as the spec lists them, each run on the log the
  previous one left: write R4 = 1 succeeds, read R3 = 0x10, write RESET = 0 succeeds,
  read R3 = 0x14, read R3 = 0x04. This follows the spec's words and is compared with
  \<open>avr_halt_request\<close> below.
\<close>

definition halt_sequence_as_specified :: "jtag_dev \<Rightarrow> avr_pdi_t \<Rightarrow> jtag_log \<Rightarrow> bool" where
  "halt_sequence_as_specified dev pdi log =
     (let s1 = avr_pdi_reg_write dev pdi PDI_REG_R4 1 log;
          s2 = avr_pdi_reg_read dev pdi PDI_REG_R3 (snd s1);
          s3 = avr_pdi_reg_write dev pdi PDI_REG_RESET 0 (snd s2);
          s4 = avr_pdi_reg_read dev pdi PDI_REG_R3 (snd s3);
          s5 = avr_pdi_reg_read dev pdi PDI_REG_R3 (snd s4)
      in fst s1 \<and> fst s2 = 0x10 \<and> fst s3 \<and> fst s4 = 0x14 \<and> fst s5 = 0x04)"

subsection \<open>Initialisation\<close>

text \<open>
  \<open>avr_pdi_init\<close> takes two collaborators that are not among the sources: the outcome of
  \<open>target_new\<close> (\<open>None\<close> when the allocation fails, otherwise the fresh target) and
  \<open>atxmega_probe\<close>, which sees the target and, through \<open>t->priv\<close>, the context, and
  reports whether it recognises the device. The result is the returned flag, the
  context (\<open>None\<close> once it has been freed), the target if one was created, and the
  transport log.
\<close>

type_synonym atxmega_probe_t = "target \<Rightarrow> avr_pdi_t \<Rightarrow> bool \<times> target \<times> avr_pdi_t"

text \<open>The assignments that fill in the fresh target, up to the call of the prober.\<close>

definition avr_pdi_init_target :: "target \<Rightarrow> avr_pdi_t \<Rightarrow> target" where
  "avr_pdi_init_target t pdi =
     t\<lparr>cpuid := idcode pdi,
       part_id := ucast (drop_bit 12 (idcode pdi) AND 0xFFFF),
       driver := ''Atmel AVR'',
       core := ''AVR'',
       priv := True,
       priv_free := Some CB_free,
       attach := Some CB_avr_attach,
       detach := Some CB_avr_detach,
       reset := Some CB_avr_reset,
       halt_request := Some CB_avr_halt_request,
       halt_poll := Some CB_avr_halt_poll\<rparr>"

definition avr_pdi_init ::
  "target option \<Rightarrow> atxmega_probe_t \<Rightarrow> avr_pdi_t \<Rightarrow> jtag_log
     \<Rightarrow> bool \<times> avr_pdi_t option \<times> target option \<times> jtag_log" where
  "avr_pdi_init target_new atxmega_probe pdi log =
     (if idcode pdi AND 0x0FFFF000 = 0 then (False, None, None, log)
      else
        let log1 = jtag_dev_write_ir (dp_jd_index pdi) IR_BYPASS log in
        case target_new of
          None \<Rightarrow> (False, Some pdi, None, log1)
        | Some t0 \<Rightarrow>
            (case atxmega_probe (avr_pdi_init_target t0 pdi) pdi of
               (recognised, t', pdi') \<Rightarrow>
                 if recognised then (True, Some pdi', Some t', log1)
                 else (True, Some (pdi'\<lparr>halt_reason := TARGET_HALT_RUNNING\<rparr>), Some t', log1)))"

text \<open>
  \<open>avr_jtag_pdi_handler\<close> (src/target/avr_jtagdp.c): \<open>calloc_ok\<close> is the outcome of the
  allocation, \<open>jd_idcode\<close> the ID code the scan recorded for the device. The handler
  returns nothing; the model returns what \<open>avr_pdi_init\<close> left, or \<open>None\<close> when the
  allocation failed and nothing was done.
\<close>

definition avr_jtag_pdi_handler ::
  "bool \<Rightarrow> target option \<Rightarrow> atxmega_probe_t \<Rightarrow> uint32 \<Rightarrow> uint8 \<Rightarrow> uint32 \<Rightarrow> jtag_log
     \<Rightarrow> (bool \<times> avr_pdi_t option \<times> target option \<times> jtag_log) option" where
  "avr_jtag_pdi_handler calloc_ok target_new atxmega_probe jd_idcode jd_index j_idcode log =
     (if \<not> calloc_ok then None
      else Some (avr_pdi_init target_new atxmega_probe
                   \<lparr>idcode = jd_idcode, dp_jd_index = jd_index, halt_reason = TARGET_HALT_RUNNING\<rparr>
                   log))"

subsection \<open>A simulated transport\<close>

text \<open>
  A scripted device for concrete runs: the n-th data-register shift is answered by the
  n-th entry of the script, and by \<open>(False, 0)\<close> once the script is used up.
\<close>

fun is_shift :: "jtag_op \<Rightarrow> bool" where
  "is_shift (JTAG_SHIFT_DR _ _) = True"
| "is_shift (JTAG_WRITE_IR _ _) = False"

definition simulated_transport :: "(bool \<times> uint8) list \<Rightarrow> jtag_dev" where
  "simulated_transport answers log =
     (let n = length (filter is_shift log) in
      if 0 < n \<and> n \<le> length answers then answers ! (n - 1) else (False, 0))"

text \<open>A device that answers every shift alike.\<close>

definition constant_transport :: "bool \<Rightarrow> uint8 \<Rightarrow> jtag_dev" where
  "constant_transport flag byte log = (flag, byte)"

section \<open>LPC43xx probe and IAP flash driver (src/target/lpc43xx.c)\<close>

definition LPC43xx_CHIPID :: uint32 where "LPC43xx_CHIPID = 0x40043200"
definition LPC43xx_CHIPID_FAMILY_MASK :: uint32 where "LPC43xx_CHIPID_FAMILY_MASK = 0x0fffffff"
definition LPC43xx_CHIPID_FAMILY_CODE :: uint32 where "LPC43xx_CHIPID_FAMILY_CODE = 0x0906002b"
definition LPC43xx_CHIPID_CHIP_MASK :: uint32 where "LPC43xx_CHIPID_CHIP_MASK = 0xf0000000"
definition LPC43xx_CHIPID_CHIP_SHIFT :: nat where "LPC43xx_CHIPID_CHIP_SHIFT = 28"
definition LPC43xx_CHIPID_CORE_TYPE_MASK :: uint32 where "LPC43xx_CHIPID_CORE_TYPE_MASK = 0xff0ffff0"

definition IAP_ENTRYPOINT_LOCATION :: uint32 where "IAP_ENTRYPOINT_LOCATION = 0x10400100"

definition LPC43xx_ETBAHB_SRAM_BASE :: uint32 where "LPC43xx_ETBAHB_SRAM_BASE = 0x2000c000"
definition LPC43xx_ETBAHB_SRAM_SIZE :: uint32 where "LPC43xx_ETBAHB_SRAM_SIZE = 16 * 1024"

definition LPC43xx_CGU_BASE :: uint32 where "LPC43xx_CGU_BASE = 0x40050000"
definition LPC43xx_CGU_CPU_CLK :: uint32 where "LPC43xx_CGU_CPU_CLK = LPC43xx_CGU_BASE + 0x06C"
definition LPC43xx_CGU_BASE_CLK_AUTOBLOCK :: uint32 where
  "LPC43xx_CGU_BASE_CLK_AUTOBLOCK = push_bit 11 1"
definition LPC43xx_CGU_BASE_CLK_SEL_IRC :: uint32 where
  "LPC43xx_CGU_BASE_CLK_SEL_IRC = push_bit 24 1"

definition LPC43xx_AIRCR :: uint32 where "LPC43xx_AIRCR = 0xe000ed0c"
definition LPC43xx_AIRCR_RESET :: uint32 where "LPC43xx_AIRCR_RESET = 0x05fA0004"

definition LPC43xx_WDT_MODE :: uint32 where "LPC43xx_WDT_MODE = 0x40080000"
definition LPC43xx_WDT_CNT :: uint32 where "LPC43xx_WDT_CNT = 0x40080004"
definition LPC43xx_WDT_FEED :: uint32 where "LPC43xx_WDT_FEED = 0x40080008"
definition LPC43xx_WDT_PERIOD_MAX :: uint32 where "LPC43xx_WDT_PERIOD_MAX = 0xffffff"
definition LPC43xx_WDT_PROTECT :: uint32 where "LPC43xx_WDT_PROTECT = push_bit 4 1"

definition IAP_RAM_SIZE :: uint32 where "IAP_RAM_SIZE = LPC43xx_ETBAHB_SRAM_SIZE"
definition IAP_RAM_BASE :: uint32 where "IAP_RAM_BASE = LPC43xx_ETBAHB_SRAM_BASE"

definition IAP_PGM_CHUNKSIZE :: uint32 where "IAP_PGM_CHUNKSIZE = 4096"

definition FLASH_NUM_BANK :: nat where "FLASH_NUM_BANK = 2"
definition FLASH_NUM_SECTOR :: nat where "FLASH_NUM_SECTOR = 15"

text \<open>
  Constants of headers that are not among the sources (lpc_common.h, cortexm.h), with
  the values those headers give them: the ROM's success status, the core clock in kHz
  and the option bit that inhibits the reset pin. The IAP commands are kept as an
  enumeration; their numbers play no role.
\<close>

definition IAP_STATUS_CMD_SUCCESS :: uint32 where "IAP_STATUS_CMD_SUCCESS = 0"
definition CPU_CLK_KHZ :: uint32 where "CPU_CLK_KHZ = 12000"
definition CORTEXM_TOPT_INHIBIT_NRST :: uint32 where "CORTEXM_TOPT_INHIBIT_NRST = push_bit 2 1"

datatype iap_cmd = IAP_CMD_INIT | IAP_CMD_PREPARE | IAP_CMD_ERASE | IAP_CMD_SET_ACTIVE_BANK

subsection \<open>The target hardware\<close>

text \<open>
  What the driver does to the target is recorded, in order: 32-bit memory writes
  (address, value), ROM calls (command, arguments), console output and progress
  reports.
\<close>

datatype event =
    MEM_WRITE32 uint32 uint32
  | IAP_CALL iap_cmd "uint32 list"
  | TC_PRINTF string
  | PRINT_PROGRESS

type_synonym trace = "event list"

text \<open>
  The collaborators that are not among the sources are parameters of the model:
  \<open>mem_read32\<close> is what a 32-bit read of the target's memory returns after the events
  so far, \<open>iap_rom\<close> the status a ROM call returns for the descriptor it is made through
  and the events so far (the call itself last), and \<open>lpc_flash_erase\<close> the shared erase
  primitive of lpc_common.c.
\<close>

record hw =
  mem_read32 :: "trace \<Rightarrow> uint32 \<Rightarrow> uint32"
  iap_rom :: "lpc_flash \<Rightarrow> trace \<Rightarrow> uint32"
  lpc_flash_erase :: "lpc_flash \<Rightarrow> uint32 \<Rightarrow> nat \<Rightarrow> trace \<Rightarrow> int \<times> trace"

text \<open>The ROM calls of a trace, in order, and the values written to one address.\<close>

fun iap_calls :: "trace \<Rightarrow> (iap_cmd \<times> uint32 list) list" where
  "iap_calls [] = []"
| "iap_calls (IAP_CALL cmd args # tr) = (cmd, args) # iap_calls tr"
| "iap_calls (_ # tr) = iap_calls tr"

fun writes_to :: "uint32 \<Rightarrow> trace \<Rightarrow> uint32 list" where
  "writes_to a [] = []"
| "writes_to a (MEM_WRITE32 a' v # tr) = (if a' = a then v # writes_to a tr else writes_to a tr)"
| "writes_to a (_ # tr) = writes_to a tr"

definition target_mem_read32 :: "hw \<Rightarrow> trace \<Rightarrow> uint32 \<Rightarrow> uint32" where
  "target_mem_read32 h tr addr = mem_read32 h tr addr"

definition target_mem_write32 :: "uint32 \<Rightarrow> uint32 \<Rightarrow> trace \<Rightarrow> trace" where
  "target_mem_write32 addr v tr = tr @ [MEM_WRITE32 addr v]"

text \<open>
  Modelled from the spec: \<open>lpc_iap_call\<close> (lpc_common.c, not among the sources) is "a
  fixed calling convention: entry address, RAM workspace address, stack-top address, a
  small integer command code, up to several integer arguments, and a returned status
  code". The model records the call and returns the status the ROM gives.
\<close>

definition lpc_iap_call ::
  "hw \<Rightarrow> lpc_flash \<Rightarrow> iap_cmd \<Rightarrow> uint32 list \<Rightarrow> trace \<Rightarrow> uint32 \<times> trace" where
  "lpc_iap_call h f cmd args tr =
     (let tr' = tr @ [IAP_CALL cmd args] in (iap_rom h f tr', tr'))"

definition tc_printf :: "string \<Rightarrow> trace \<Rightarrow> trace" where
  "tc_printf msg tr = tr @ [TC_PRINTF msg]"

definition target_print_progress :: "trace \<Rightarrow> trace" where
  "target_print_progress tr = tr @ [PRINT_PROGRESS]"

subsection \<open>Probe and layout\<close>

definition lpc43xx_cmd_list :: "string list" where
  "lpc43xx_cmd_list = [''reset'', ''mkboot'']"

text \<open>
  Modelled from the spec: \<open>target_add_ram\<close> and \<open>target_add_commands\<close> (target.c, not among
  the sources) are the "RAM-region registration" and "command-table registration" of
  the generic target layer; each adds one entry to the registry.
\<close>

definition target_add_ram :: "target \<Rightarrow> uint32 \<Rightarrow> uint32 \<Rightarrow> target" where
  "target_add_ram t start len = t\<lparr>ram := ram t @ [\<lparr>ram_start = start, ram_length = len\<rparr>]\<rparr>"

definition target_add_commands :: "target \<Rightarrow> string list \<Rightarrow> string \<Rightarrow> target" where
  "target_add_commands t cmds name = t\<lparr>commands := commands t @ [(name, cmds)]\<rparr>"

text \<open>
  Modelled from the spec: \<open>lpc_add_flash\<close> (lpc_common.c) is the "flash-region
  registration" of the generic layer: it creates a descriptor for the region at
  \<open>addr\<close> of length \<open>len\<close>, every other field cleared, and registers it with the
  target. \<open>lpc43xx_add_flash\<close> fills in the remaining fields of the registered
  descriptor; the model registers the finished descriptor.
\<close>

definition lpc_add_flash :: "uint32 \<Rightarrow> uint32 \<Rightarrow> lpc_flash" where
  "lpc_add_flash addr len =
     \<lparr>f_start = addr, f_length = len, f_blocksize = 0, f_buf_size = 0, f_erase = None,
      bank = 0, base_sector = 0, iap_entry = 0, iap_ram = 0, iap_msp = 0, wdt_kick = None\<rparr>"

definition lpc43xx_add_flash ::
  "target \<Rightarrow> uint32 \<Rightarrow> uint8 \<Rightarrow> uint8 \<Rightarrow> uint32 \<Rightarrow> uint32 \<Rightarrow> uint32 \<Rightarrow> target" where
  "lpc43xx_add_flash t entry bnk base addr len erasesize =
     (let lf = (lpc_add_flash addr len)
                 \<lparr>f_blocksize := erasesize,
                  f_buf_size := IAP_PGM_CHUNKSIZE,
                  f_erase := Some CB_lpc43xx_flash_erase,
                  bank := bnk,
                  base_sector := base,
                  iap_entry := entry,
                  iap_ram := IAP_RAM_BASE,
                  iap_msp := IAP_RAM_BASE + IAP_RAM_SIZE,
                  wdt_kick := Some CB_lpc43xx_wdt_kick\<rparr>
      in t\<lparr>flash := flash t @ [lf]\<rparr>)"

definition lpc43xx_detect_flash :: "hw \<Rightarrow> trace \<Rightarrow> target \<Rightarrow> uint32 \<Rightarrow> target" where
  "lpc43xx_detect_flash h tr t core_type =
     (let entry = target_mem_read32 h tr IAP_ENTRYPOINT_LOCATION;
          t1 = target_add_ram t 0 0x1A000000;
          t2 = lpc43xx_add_flash t1 entry 0 0 0x1A000000 0x10000 0x2000;
          t3 = lpc43xx_add_flash t2 entry 0 8 0x1A010000 0x70000 0x10000;
          t4 = target_add_ram t3 0x1A080000 0xF80000;
          t5 = lpc43xx_add_flash t4 entry 1 0 0x1B000000 0x10000 0x2000;
          t6 = lpc43xx_add_flash t5 entry 1 8 0x1B010000 0x70000 0x10000;
          t7 = target_add_commands t6 lpc43xx_cmd_list ''LPC43xx'';
          t8 = target_add_ram t7 0x1B080000 0xE4F80000
      in t8\<lparr>target_options := target_options t8 OR CORTEXM_TOPT_INHIBIT_NRST\<rparr>)"

definition lpc43xx_detect_flashless :: "target \<Rightarrow> uint32 \<Rightarrow> target" where
  "lpc43xx_detect_flashless t core_type = t"

definition lpc43xx_probe :: "hw \<Rightarrow> trace \<Rightarrow> target \<Rightarrow> bool \<times> target" where
  "lpc43xx_probe h tr t =
     (let chipid = target_mem_read32 h tr LPC43xx_CHIPID in
      if chipid AND LPC43xx_CHIPID_FAMILY_MASK \<noteq> LPC43xx_CHIPID_FAMILY_CODE then (False, t)
      else
        let core_type = cpuid t AND LPC43xx_CHIPID_CORE_TYPE_MASK;
            chip_code = drop_bit LPC43xx_CHIPID_CHIP_SHIFT (chipid AND LPC43xx_CHIPID_CHIP_MASK);
            t' = t\<lparr>driver := ''LPC43xx'', mass_erase := Some CB_lpc43xx_mass_erase\<rparr>
        in if chip_code = 4 \<or> chip_code = 7 then (True, lpc43xx_detect_flash h tr t' core_type)
           else if chip_code = 5 \<or> chip_code = 6 then (True, lpc43xx_detect_flashless t' core_type)
           else (False, t'))"

subsection \<open>Watchdog\<close>

definition lpc43xx_wdt_set_period :: "hw \<Rightarrow> trace \<Rightarrow> trace" where
  "lpc43xx_wdt_set_period h tr =
     (let wdt_mode = target_mem_read32 h tr LPC43xx_WDT_MODE in
      if wdt_mode \<noteq> 0 \<and> \<not> (wdt_mode AND LPC43xx_WDT_PROTECT \<noteq> 0)
      then target_mem_write32 LPC43xx_WDT_CNT LPC43xx_WDT_PERIOD_MAX tr
      else tr)"

definition lpc43xx_wdt_kick :: "hw \<Rightarrow> trace \<Rightarrow> trace" where
  "lpc43xx_wdt_kick h tr =
     (let wdt_mode = target_mem_read32 h tr LPC43xx_WDT_MODE in
      if wdt_mode \<noteq> 0
      then target_mem_write32 LPC43xx_WDT_FEED 0xFF (target_mem_write32 LPC43xx_WDT_FEED 0xAA tr)
      else tr)"

subsection \<open>Flash initialisation, erase and mass erase\<close>

definition lpc43xx_flash_init :: "hw \<Rightarrow> lpc_flash \<Rightarrow> trace \<Rightarrow> bool \<times> trace" where
  "lpc43xx_flash_init h f tr =
     (let tr1 = lpc43xx_wdt_set_period h tr;
          tr2 = target_mem_write32 LPC43xx_CGU_CPU_CLK
                  (LPC43xx_CGU_BASE_CLK_AUTOBLOCK OR LPC43xx_CGU_BASE_CLK_SEL_IRC) tr1
      in case lpc_iap_call h f IAP_CMD_INIT [] tr2 of
           (status, tr3) \<Rightarrow> (status = IAP_STATUS_CMD_SUCCESS, tr3))"

definition lpc43xx_flash_erase ::
  "hw \<Rightarrow> lpc_flash \<Rightarrow> uint32 \<Rightarrow> nat \<Rightarrow> trace \<Rightarrow> int \<times> trace" where
  "lpc43xx_flash_erase h f addr len tr =
     (case lpc43xx_flash_init h f tr of
        (ok, tr1) \<Rightarrow> if \<not> ok then (- 1, tr1) else lpc_flash_erase h f addr len tr1)"

text \<open>
  The loop of \<open>lpc43xx_mass_erase\<close> over the banks, from \<open>bnk\<close> on. A ROM call has
  failed when its status is not zero (the source tests the status for truth).
\<close>

function lpc43xx_mass_erase_banks :: "hw \<Rightarrow> lpc_flash \<Rightarrow> nat \<Rightarrow> trace \<Rightarrow> bool \<times> trace" where
  "lpc43xx_mass_erase_banks h f bnk tr =
     (if bnk < FLASH_NUM_BANK then
        case lpc_iap_call h f IAP_CMD_PREPARE
               [0, of_nat (FLASH_NUM_SECTOR - 1), of_nat bnk] tr of
          (s1, tr1) \<Rightarrow>
            if s1 \<noteq> 0 then (False, tr1)
            else
              case lpc_iap_call h f IAP_CMD_ERASE
                     [0, of_nat (FLASH_NUM_SECTOR - 1), CPU_CLK_KHZ, of_nat bnk] tr1 of
                (s2, tr2) \<Rightarrow>
                  if s2 \<noteq> 0 then (False, tr2)
                  else lpc43xx_mass_erase_banks h f (bnk + 1) (target_print_progress tr2)
      else (True, tr))"
  by pat_completeness auto
termination
  by (relation "measure (\<lambda>(h, f, bnk, tr). FLASH_NUM_BANK - bnk)") auto

declare lpc43xx_mass_erase_banks.simps [simp del]

text \<open>
  The progress timer (\<open>platform_timeout_set\<close>) only paces the progress output and is left
  out; each call of \<open>target_print_progress\<close> is recorded.
  \<open>t->flash\<close> is the head of the flash registry. With an empty registry it is NULL and
  \<open>lpc43xx_flash_init\<close> dereferences it: the behaviour is undefined, which the model
  reports as \<open>None\<close>.
\<close>

definition lpc43xx_mass_erase :: "hw \<Rightarrow> target \<Rightarrow> trace \<Rightarrow> (bool \<times> trace) option" where
  "lpc43xx_mass_erase h t tr =
     (case flash t of
        [] \<Rightarrow> None
      | f # _ \<Rightarrow>
          (case lpc43xx_flash_init h f tr of
             (_, tr1) \<Rightarrow> Some (lpc43xx_mass_erase_banks h f 0 tr1)))"

subsection \<open>Commands\<close>

definition lpc43xx_cmd_reset :: "int \<Rightarrow> string list \<Rightarrow> trace \<Rightarrow> bool \<times> trace" where
  "lpc43xx_cmd_reset argc argv tr = (True, target_mem_write32 LPC43xx_AIRCR LPC43xx_AIRCR_RESET tr)"

text \<open>
  The C library's \<open>strtoul\<close>, called with a NULL end pointer: white space is skipped, a
  sign is optional, base 0 selects hexadecimal after \<open>0x\<close>, octal after \<open>0\<close> and
  decimal otherwise, digits are read as long as they are valid in the base, and no
  digits at all give 0. A value above \<open>ULONG_MAX\<close> gives \<open>ULONG_MAX\<close>; otherwise a
  minus sign negates the value as an unsigned long. \<open>unsigned long\<close> has the 32 bits
  of the probe's ARM toolchain.
\<close>

definition ULONG_MAX :: nat where "ULONG_MAX = 2 ^ 32 - 1"

definition isspace :: "char \<Rightarrow> bool" where
  "isspace c = (c \<in> set [CHR '' '', CHR 0x09, CHR 0x0A, CHR 0x0B, CHR 0x0C, CHR 0x0D])"

definition digit_value :: "char \<Rightarrow> nat option" where
  "digit_value c =
     (let n = (of_char c :: nat) in
      if 48 \<le> n \<and> n \<le> 57 then Some (n - 48)
      else if 97 \<le> n \<and> n \<le> 122 then Some (n - 87)
      else if 65 \<le> n \<and> n \<le> 90 then Some (n - 55)
      else None)"

fun strtoul_digits :: "nat \<Rightarrow> string \<Rightarrow> nat \<Rightarrow> nat" where
  "strtoul_digits base [] acc = acc"
| "strtoul_digits base (c # cs) acc =
     (case digit_value c of
        None \<Rightarrow> acc
      | Some d \<Rightarrow> if d < base then strtoul_digits base cs (acc * base + d) else acc)"

definition strtoul :: "string \<Rightarrow> nat \<Rightarrow> nat" where
  "strtoul nptr base =
     (let s0 = dropWhile isspace nptr;
          neg = (s0 \<noteq> [] \<and> hd s0 = CHR ''-'');
          s1 = (if s0 \<noteq> [] \<and> (hd s0 = CHR ''-'' \<or> hd s0 = CHR ''+'') then tl s0 else s0);
          hex = ((base = 0 \<or> base = 16) \<and> (take 2 s1 = ''0x'' \<or> take 2 s1 = ''0X''));
          s2 = (if hex then drop 2 s1 else s1);
          b = (if hex then 16
               else if base = 0 then (if take 1 s1 = ''0'' then 8 else 10)
               else base);
          v = strtoul_digits b s2 0
      in if v > ULONG_MAX then ULONG_MAX
         else if neg then (ULONG_MAX + 1 - v) mod (ULONG_MAX + 1)
         else v)"

text \<open>
  \<open>argv ! 1\<close> is read only when \<open>argc = 2\<close>; the command dispatcher passes \<open>argc\<close>
  strings, and a shorter vector (a read past its end) is reported as \<open>None\<close>, as is the
  NULL descriptor of a target without flash.
\<close>

definition lpc43xx_cmd_mkboot ::
  "hw \<Rightarrow> target \<Rightarrow> int \<Rightarrow> string list \<Rightarrow> trace \<Rightarrow> (bool \<times> trace) option" where
  "lpc43xx_cmd_mkboot h t argc argv tr =
     (if argc \<noteq> 2 then Some (False, tc_printf ''Expected bank argument 0 or 1.\<newline>'' tr)
      else if length argv < 2 then None
      else
        let bnk = (word_of_nat (strtoul (argv ! 1) 0) :: uint32) in
        if bnk > 1
        then Some (False, tc_printf ''Unexpected bank number, should be 0 or 1.\<newline>'' tr)
        else
          (case flash t of
             [] \<Rightarrow> None
           | f # _ \<Rightarrow>
               (case lpc43xx_flash_init h f tr of
                  (_, tr1) \<Rightarrow>
                    (case lpc_iap_call h f IAP_CMD_SET_ACTIVE_BANK [bnk, CPU_CLK_KHZ] tr1 of
                       (status, tr2) \<Rightarrow>
                         if status \<noteq> 0
                         then Some (False, tc_printf ''Set bootable failed.\<newline>'' tr2)
                         else Some (True, tc_printf ''Set bootable OK.\<newline>'' tr2)))))"

subsection \<open>Simulated hardware\<close>

text \<open>
  Hardware for concrete runs: the watchdog mode register and the chip-ID register read
  as given, every other address reads as 0, and the n-th ROM call returns the n-th
  status of the script (0 once the script is used up). The shared erase primitive
  reports success and does nothing.
\<close>

fun is_iap_call :: "event \<Rightarrow> bool" where
  "is_iap_call (IAP_CALL _ _) = True"
| "is_iap_call _ = False"

definition simulated_hw :: "uint32 \<Rightarrow> uint32 \<Rightarrow> uint32 list \<Rightarrow> hw" where
  "simulated_hw wdt_mode chipid statuses =
     \<lparr>mem_read32 = (\<lambda>tr addr. if addr = LPC43xx_WDT_MODE then wdt_mode
                              else if addr = LPC43xx_CHIPID then chipid else 0),
      iap_rom = (\<lambda>f tr. let n = length (filter is_iap_call tr) in
                         if 0 < n \<and> n \<le> length statuses then statuses ! (n - 1) else 0),
      lpc_flash_erase = (\<lambda>f addr len tr. (0, tr))\<rparr>"

definition blank_target :: target where
  "blank_target =
     \<lparr>cpuid = 0, part_id = 0, driver = [], core = [], priv = False, priv_free = None,
      attach = None, detach = None, reset = None, halt_request = None, halt_poll = None,
      mass_erase = None, target_options = 0, ram = [], flash = [], commands = []\<rparr>"

subsection \<open>Concrete inputs\<close>

text \<open>
  A debug context whose halt reason is neither of the two values the driver writes, the
  answers of a device that follows the halt handshake (each register write is two
  shifts answered by the marker with the flag clear, each register read a marker with
  the flag clear followed by the value with the flag set), the same answers with the
  second value of R3 substituted, and a prober that recognises nothing.
\<close>

definition example_pdi :: avr_pdi_t where
  "example_pdi = \<lparr>idcode = 0x0974C03F, dp_jd_index = 0, halt_reason = TARGET_HALT_OTHER\<rparr>"

definition handshake_answers :: "(bool \<times> uint8) list" where
  "handshake_answers =
     [(False, 0xEB), (False, 0xEB), (False, 0xEB), (True, 0x10),
      (False, 0xEB), (False, 0xEB), (False, 0xEB), (True, 0x14),
      (False, 0xEB), (True, 0x04)]"

definition handshake_answers_substituted :: "(bool \<times> uint8) list" where
  "handshake_answers_substituted =
     [(False, 0xEB), (False, 0xEB), (False, 0xEB), (True, 0x10),
      (False, 0xEB), (False, 0xEB), (False, 0xEB), (True, 0x10),
      (False, 0xEB), (True, 0x04)]"

text \<open>
  The ten data-register shifts a complete halt request issues on device \<open>jd\<close>: the
  command and value of the write to R4, the two commands of the read of R3, the write
  to RESET, and two more reads of R3.
\<close>

definition halt_request_shifts :: "uint8 \<Rightarrow> jtag_log" where
  "halt_request_shifts jd =
     [JTAG_SHIFT_DR jd 0xC4, JTAG_SHIFT_DR jd 0x01, JTAG_SHIFT_DR jd 0x83, JTAG_SHIFT_DR jd 0x83,
      JTAG_SHIFT_DR jd 0xC1, JTAG_SHIFT_DR jd 0x00, JTAG_SHIFT_DR jd 0x83, JTAG_SHIFT_DR jd 0x83,
      JTAG_SHIFT_DR jd 0x83, JTAG_SHIFT_DR jd 0x83]"

definition unrecognising_probe :: atxmega_probe_t where
  "unrecognising_probe t pdi = (False, t, pdi)"

text \<open>A flash descriptor and a target whose flash registry holds it.\<close>

definition example_flash :: lpc_flash where
  "example_flash =
     \<lparr>f_start = 0x1A000000, f_length = 0x10000, f_blocksize = 0x2000, f_buf_size = 4096,
      f_erase = Some CB_lpc43xx_flash_erase, bank = 0, base_sector = 0,
      iap_entry = 0x10400100, iap_ram = 0x2000c000, iap_msp = 0x20010000,
      wdt_kick = Some CB_lpc43xx_wdt_kick\<rparr>"

definition example_flash_target :: target where
  "example_flash_target = blank_target\<lparr>flash := [example_flash]\<rparr>"

section \<open>Properties of the PDI register protocol\<close>

text \<open>
  Both register operations written out against the device's answers: what is returned
  and which shifts were issued.
\<close>

lemma avr_pdi_reg_write_unfold:
  "avr_pdi_reg_write dev pdi reg v log =
     (if 16 \<le> reg then (False, log)
      else if fst (dev (log @ [JTAG_SHIFT_DR (dp_jd_index pdi) (PDI_STCS OR reg)])) \<or>
              snd (dev (log @ [JTAG_SHIFT_DR (dp_jd_index pdi) (PDI_STCS OR reg)])) \<noteq> PDI_EMPTY
           then (False, log @ [JTAG_SHIFT_DR (dp_jd_index pdi) (PDI_STCS OR reg)])
      else (dev (log @ [JTAG_SHIFT_DR (dp_jd_index pdi) (PDI_STCS OR reg),
                        JTAG_SHIFT_DR (dp_jd_index pdi) v]) = (False, PDI_EMPTY),
            log @ [JTAG_SHIFT_DR (dp_jd_index pdi) (PDI_STCS OR reg),
                   JTAG_SHIFT_DR (dp_jd_index pdi) v]))"
  by (auto simp: avr_pdi_reg_write_def avr_jtag_shift_dr_def Let_def split: prod.splits)

lemma avr_pdi_reg_read_unfold:
  "avr_pdi_reg_read dev pdi reg log =
     (if 16 \<le> reg then (0xFF, log)
      else if fst (dev (log @ [JTAG_SHIFT_DR (dp_jd_index pdi) (PDI_LDCS OR reg)])) \<or>
              snd (dev (log @ [JTAG_SHIFT_DR (dp_jd_index pdi) (PDI_LDCS OR reg)])) \<noteq> PDI_EMPTY
           then (0xFF, log @ [JTAG_SHIFT_DR (dp_jd_index pdi) (PDI_LDCS OR reg)])
      else if \<not> fst (dev (log @ [JTAG_SHIFT_DR (dp_jd_index pdi) (PDI_LDCS OR reg),
                                  JTAG_SHIFT_DR (dp_jd_index pdi) (PDI_LDCS OR reg)]))
           then (0xFF, log @ [JTAG_SHIFT_DR (dp_jd_index pdi) (PDI_LDCS OR reg),
                              JTAG_SHIFT_DR (dp_jd_index pdi) (PDI_LDCS OR reg)])
      else (snd (dev (log @ [JTAG_SHIFT_DR (dp_jd_index pdi) (PDI_LDCS OR reg),
                             JTAG_SHIFT_DR (dp_jd_index pdi) (PDI_LDCS OR reg)])),
            log @ [JTAG_SHIFT_DR (dp_jd_index pdi) (PDI_LDCS OR reg),
                   JTAG_SHIFT_DR (dp_jd_index pdi) (PDI_LDCS OR reg)]))"
  by (auto simp: avr_pdi_reg_read_def avr_jtag_shift_dr_def Let_def split: prod.splits)

lemma small_regs_in_range: "\<not> (16 :: uint8) \<le> 1" "\<not> (16 :: uint8) \<le> 0"
  by (simp_all add: word_le_nat_alt)

lemmas pdi_consts =
  PDI_EMPTY_def PDI_LDCS_def PDI_STCS_def PDI_REG_R3_def PDI_REG_R4_def PDI_REG_RESET_def
  PDI_REG_STATUS_def PDI_RESET_def

lemmas pdi_run =
  avr_pdi_reg_write_unfold avr_pdi_reg_read_unfold simulated_transport_def
  constant_transport_def pdi_consts small_regs_in_range

lemmas pdi_fixtures = example_pdi_def handshake_answers_def handshake_answers_substituted_def

text \<open>
  When a register operation got through, and which shifts it then issued, in terms of
  the device's answers.
\<close>

lemma reg_write_ok_iff:
  "reg < 16 \<Longrightarrow>
   fst (avr_pdi_reg_write dev pdi reg v log) \<longleftrightarrow>
     dev (log @ [JTAG_SHIFT_DR (dp_jd_index pdi) (PDI_STCS OR reg)]) = (False, PDI_EMPTY) \<and>
     dev (log @ [JTAG_SHIFT_DR (dp_jd_index pdi) (PDI_STCS OR reg),
                 JTAG_SHIFT_DR (dp_jd_index pdi) v]) = (False, PDI_EMPTY)"
  by (auto simp: avr_pdi_reg_write_unfold not_le [symmetric] prod_eq_iff)

lemma reg_write_ok_log:
  "fst (avr_pdi_reg_write dev pdi reg v log) \<Longrightarrow>
   snd (avr_pdi_reg_write dev pdi reg v log) =
     log @ [JTAG_SHIFT_DR (dp_jd_index pdi) (PDI_STCS OR reg), JTAG_SHIFT_DR (dp_jd_index pdi) v]"
  by (auto simp: avr_pdi_reg_write_unfold split: if_splits)

lemma reg_read_value_iff:
  "reg < 16 \<Longrightarrow> x \<noteq> 0xFF \<Longrightarrow>
   fst (avr_pdi_reg_read dev pdi reg log) = x \<longleftrightarrow>
     dev (log @ [JTAG_SHIFT_DR (dp_jd_index pdi) (PDI_LDCS OR reg)]) = (False, PDI_EMPTY) \<and>
     dev (log @ [JTAG_SHIFT_DR (dp_jd_index pdi) (PDI_LDCS OR reg),
                 JTAG_SHIFT_DR (dp_jd_index pdi) (PDI_LDCS OR reg)]) = (True, x)"
  by (auto simp: avr_pdi_reg_read_unfold not_le [symmetric] prod_eq_iff)

lemma reg_read_value_log:
  "fst (avr_pdi_reg_read dev pdi reg log) = x \<Longrightarrow> x \<noteq> 0xFF \<Longrightarrow>
   snd (avr_pdi_reg_read dev pdi reg log) =
     log @ [JTAG_SHIFT_DR (dp_jd_index pdi) (PDI_LDCS OR reg),
            JTAG_SHIFT_DR (dp_jd_index pdi) (PDI_LDCS OR reg)]"
  by (auto simp: avr_pdi_reg_read_unfold split: if_splits)

text \<open>
  The handshake of the spec at the level of the transport: the five transactions yield
  the specified results exactly when the device answers the ten shifts of
  \<open>halt_request_shifts\<close> with \<open>handshake_answers\<close>.
\<close>

lemma halt_sequence_transport_level:
  "halt_sequence_as_specified dev pdi log \<longleftrightarrow>
     map (\<lambda>n. dev (log @ take n (halt_request_shifts (dp_jd_index pdi))))
       [1, 2, 3, 4, 5, 6, 7, 8, 9, 10] = handshake_answers"
proof -
  let ?jd = "dp_jd_index pdi"
  let ?W4 = "[JTAG_SHIFT_DR ?jd 0xC4, JTAG_SHIFT_DR ?jd 1]"
  let ?R3 = "[JTAG_SHIFT_DR ?jd 0x83, JTAG_SHIFT_DR ?jd 0x83]"
  let ?W1 = "[JTAG_SHIFT_DR ?jd 0xC1, JTAG_SHIFT_DR ?jd 0]"
  let ?s1 = "avr_pdi_reg_write dev pdi PDI_REG_R4 1 log"
  let ?s2 = "avr_pdi_reg_read dev pdi PDI_REG_R3 (snd ?s1)"
  let ?s3 = "avr_pdi_reg_write dev pdi PDI_REG_RESET 0 (snd ?s2)"
  let ?s4 = "avr_pdi_reg_read dev pdi PDI_REG_R3 (snd ?s3)"
  let ?s5 = "avr_pdi_reg_read dev pdi PDI_REG_R3 (snd ?s4)"
  let ?A1 = "dev (log @ [JTAG_SHIFT_DR ?jd 0xC4]) = (False, 0xEB) \<and>
             dev (log @ ?W4) = (False, 0xEB)"
  let ?A2 = "dev (log @ ?W4 @ [JTAG_SHIFT_DR ?jd 0x83]) = (False, 0xEB) \<and>
             dev (log @ ?W4 @ ?R3) = (True, 0x10)"
  let ?A3 = "dev (log @ ?W4 @ ?R3 @ [JTAG_SHIFT_DR ?jd 0xC1]) = (False, 0xEB) \<and>
             dev (log @ ?W4 @ ?R3 @ ?W1) = (False, 0xEB)"
  let ?A4 = "dev (log @ ?W4 @ ?R3 @ ?W1 @ [JTAG_SHIFT_DR ?jd 0x83]) = (False, 0xEB) \<and>
             dev (log @ ?W4 @ ?R3 @ ?W1 @ ?R3) = (True, 0x14)"
  let ?A5 = "dev (log @ ?W4 @ ?R3 @ ?W1 @ ?R3 @ [JTAG_SHIFT_DR ?jd 0x83]) = (False, 0xEB) \<and>
             dev (log @ ?W4 @ ?R3 @ ?W1 @ ?R3 @ ?R3) = (True, 0x04)"
  have rng: "PDI_REG_R4 < 16" "PDI_REG_R3 < 16" "PDI_REG_RESET < 16"
    by (simp_all add: pdi_consts word_less_nat_alt)
  have cmd: "PDI_STCS OR PDI_REG_R4 = 0xC4" "PDI_LDCS OR PDI_REG_R3 = 0x83"
            "PDI_STCS OR PDI_REG_RESET = 0xC1"
    by (simp_all add: pdi_consts)
  have e1: "fst ?s1 \<longleftrightarrow> ?A1"
    by (simp add: reg_write_ok_iff [OF rng(1)] cmd PDI_EMPTY_def)
  have l1: "snd ?s1 = log @ ?W4" if "fst ?s1"
    using that by (simp add: reg_write_ok_log cmd)
  have e2: "fst ?s2 = 0x10 \<longleftrightarrow> ?A2" if "fst ?s1"
    by (simp add: l1 [OF that] reg_read_value_iff [OF rng(2)] cmd PDI_EMPTY_def)
  have l2: "snd ?s2 = log @ ?W4 @ ?R3" if "fst ?s1" "fst ?s2 = 0x10"
    using reg_read_value_log [of dev pdi PDI_REG_R3 "snd ?s1" "0x10"] that
    by (simp add: l1 cmd)
  have e3: "fst ?s3 \<longleftrightarrow> ?A3" if "fst ?s1" "fst ?s2 = 0x10"
    by (simp add: l2 [OF that] reg_write_ok_iff [OF rng(3)] cmd PDI_EMPTY_def)
  have l3: "snd ?s3 = log @ ?W4 @ ?R3 @ ?W1" if "fst ?s1" "fst ?s2 = 0x10" "fst ?s3"
    using reg_write_ok_log [of dev pdi PDI_REG_RESET 0 "snd ?s2"] that
    by (simp add: l2 cmd)
  have e4: "fst ?s4 = 0x14 \<longleftrightarrow> ?A4" if "fst ?s1" "fst ?s2 = 0x10" "fst ?s3"
    by (simp add: l3 [OF that] reg_read_value_iff [OF rng(2)] cmd PDI_EMPTY_def)
  have l4: "snd ?s4 = log @ ?W4 @ ?R3 @ ?W1 @ ?R3"
    if "fst ?s1" "fst ?s2 = 0x10" "fst ?s3" "fst ?s4 = 0x14"
    using reg_read_value_log [of dev pdi PDI_REG_R3 "snd ?s3" "0x14"] that
    by (simp add: l3 cmd)
  have e5: "fst ?s5 = 0x04 \<longleftrightarrow> ?A5"
    if "fst ?s1" "fst ?s2 = 0x10" "fst ?s3" "fst ?s4 = 0x14"
    by (simp add: l4 [OF that] reg_read_value_iff [OF rng(2)] cmd PDI_EMPTY_def)
  have "halt_sequence_as_specified dev pdi log \<longleftrightarrow>
          fst ?s1 \<and> fst ?s2 = 0x10 \<and> fst ?s3 \<and> fst ?s4 = 0x14 \<and> fst ?s5 = 0x04"
    by (simp add: halt_sequence_as_specified_def Let_def)
  also have "\<dots> \<longleftrightarrow> ?A1 \<and> ?A2 \<and> ?A3 \<and> ?A4 \<and> ?A5"
    using e1 e2 e3 e4 e5 by blast
  also have "\<dots> \<longleftrightarrow> map (\<lambda>n. dev (log @ take n (halt_request_shifts ?jd)))
       [1, 2, 3, 4, 5, 6, 7, 8, 9, 10] = handshake_answers"
    by (simp add: halt_request_shifts_def handshake_answers_def)
  finally show ?thesis .
qed

text \<open>
  C1. \<open>avr_halt_request\<close> is all-or-nothing. It returns normally exactly when the five
  transactions, run in order, yield: write R4 = 1 succeeds, read R3 = 0x10, write
  RESET = 0 succeeds, read R3 = 0x14, read R3 = 0x04. In that case the halt reason
  becomes halted-by-request. In every other execution, whichever step deviates, the
  fatal error is raised and the context, the halt reason included, is the one the
  call started with.
\<close>

theorem halt_request_all_or_nothing:
  "(fst (avr_halt_request dev pdi log) = Inr () \<longleftrightarrow> halt_sequence_as_specified dev pdi log) \<and>
   (halt_sequence_as_specified dev pdi log \<longrightarrow>
      fst (snd (avr_halt_request dev pdi log)) = pdi\<lparr>halt_reason := TARGET_HALT_REQUEST\<rparr>) \<and>
   (\<not> halt_sequence_as_specified dev pdi log \<longrightarrow>
      fst (avr_halt_request dev pdi log) =
        Inl (EXCEPTION_ERROR ''Error halting device, device in incorrect state\<newline>'') \<and>
      fst (snd (avr_halt_request dev pdi log)) = pdi)"
  unfolding avr_halt_request_def halt_sequence_as_specified_def Let_def
  by (simp split: prod.splits)

text \<open>
  The handshake answers make the request succeed from a context whose halt reason was
  halted-by-other-cause; with the single value 0x14 replaced by 0x10 the request raises
  and the halt reason is still halted-by-other-cause.
\<close>

theorem halt_request_all_or_nothing_witness:
  "halt_sequence_as_specified (simulated_transport handshake_answers) example_pdi [] \<and>
   fst (avr_halt_request (simulated_transport handshake_answers) example_pdi []) = Inr () \<and>
   halt_reason (fst (snd (avr_halt_request (simulated_transport handshake_answers) example_pdi [])))
     = TARGET_HALT_REQUEST \<and>
   \<not> halt_sequence_as_specified (simulated_transport handshake_answers_substituted) example_pdi [] \<and>
   fst (avr_halt_request (simulated_transport handshake_answers_substituted) example_pdi []) =
     Inl (EXCEPTION_ERROR ''Error halting device, device in incorrect state\<newline>'') \<and>
   halt_reason (fst (snd (avr_halt_request (simulated_transport handshake_answers_substituted)
     example_pdi []))) = TARGET_HALT_OTHER"
proof -
  let ?good = "simulated_transport handshake_answers"
  let ?bad = "simulated_transport handshake_answers_substituted"
  let ?l1 = "[JTAG_SHIFT_DR 0 0xC4, JTAG_SHIFT_DR 0 1]"
  let ?l2 = "[JTAG_SHIFT_DR 0 0xC4, JTAG_SHIFT_DR 0 1, JTAG_SHIFT_DR 0 0x83, JTAG_SHIFT_DR 0 0x83]"
  let ?l3 = "[JTAG_SHIFT_DR 0 0xC4, JTAG_SHIFT_DR 0 1, JTAG_SHIFT_DR 0 0x83, JTAG_SHIFT_DR 0 0x83,
              JTAG_SHIFT_DR 0 0xC1, JTAG_SHIFT_DR 0 0]"
  let ?l4 = "[JTAG_SHIFT_DR 0 0xC4, JTAG_SHIFT_DR 0 1, JTAG_SHIFT_DR 0 0x83, JTAG_SHIFT_DR 0 0x83,
              JTAG_SHIFT_DR 0 0xC1, JTAG_SHIFT_DR 0 0, JTAG_SHIFT_DR 0 0x83, JTAG_SHIFT_DR 0 0x83]"
  let ?l5 = "[JTAG_SHIFT_DR 0 0xC4, JTAG_SHIFT_DR 0 1, JTAG_SHIFT_DR 0 0x83, JTAG_SHIFT_DR 0 0x83,
              JTAG_SHIFT_DR 0 0xC1, JTAG_SHIFT_DR 0 0, JTAG_SHIFT_DR 0 0x83, JTAG_SHIFT_DR 0 0x83,
              JTAG_SHIFT_DR 0 0x83, JTAG_SHIFT_DR 0 0x83]"
  have g1: "avr_pdi_reg_write ?good example_pdi PDI_REG_R4 1 [] = (True, ?l1)"
    by (simp add: pdi_run pdi_fixtures)
  have g2: "avr_pdi_reg_read ?good example_pdi PDI_REG_R3 ?l1 = (0x10, ?l2)"
    by (simp add: pdi_run pdi_fixtures)
  have g3: "avr_pdi_reg_write ?good example_pdi PDI_REG_RESET 0 ?l2 = (True, ?l3)"
    by (simp add: pdi_run pdi_fixtures)
  have g4: "avr_pdi_reg_read ?good example_pdi PDI_REG_R3 ?l3 = (0x14, ?l4)"
    by (simp add: pdi_run pdi_fixtures)
  have g5: "avr_pdi_reg_read ?good example_pdi PDI_REG_R3 ?l4 = (0x04, ?l5)"
    by (simp add: pdi_run pdi_fixtures)
  have good: "halt_sequence_as_specified ?good example_pdi []"
    unfolding halt_sequence_as_specified_def Let_def by (simp add: g1 g2 g3 g4 g5)
  have b1: "avr_pdi_reg_write ?bad example_pdi PDI_REG_R4 1 [] = (True, ?l1)"
    by (simp add: pdi_run pdi_fixtures)
  have b2: "avr_pdi_reg_read ?bad example_pdi PDI_REG_R3 ?l1 = (0x10, ?l2)"
    by (simp add: pdi_run pdi_fixtures)
  have b3: "avr_pdi_reg_write ?bad example_pdi PDI_REG_RESET 0 ?l2 = (True, ?l3)"
    by (simp add: pdi_run pdi_fixtures)
  have b4: "avr_pdi_reg_read ?bad example_pdi PDI_REG_R3 ?l3 = (0x10, ?l4)"
    by (simp add: pdi_run pdi_fixtures)
  have bad: "\<not> halt_sequence_as_specified ?bad example_pdi []"
    unfolding halt_sequence_as_specified_def Let_def by (simp add: b1 b2 b3 b4)
  have prior: "halt_reason example_pdi = TARGET_HALT_OTHER"
    by (simp add: example_pdi_def)
  from halt_request_all_or_nothing [of ?good example_pdi "[]"]
       halt_request_all_or_nothing [of ?bad example_pdi "[]"] good bad prior
  show ?thesis by simp
qed

text \<open>
  C7. For every register index of 16 or more, \<open>avr_pdi_reg_write\<close> returns false and
  \<open>avr_pdi_reg_read\<close> returns the failure value 0xFF, and neither issues a transport
  transaction: the log of operations is the one the call started with.
\<close>

theorem reg_out_of_range_no_transaction:
  "16 \<le> reg \<Longrightarrow>
     avr_pdi_reg_write dev pdi reg v log = (False, log) \<and>
     avr_pdi_reg_read dev pdi reg log = (0xFF, log)"
  by (simp add: avr_pdi_reg_write_def avr_pdi_reg_read_def)

theorem reg_out_of_range_no_transaction_witness:
  "(16 :: uint8) \<le> 200 \<and>
   avr_pdi_reg_write (constant_transport False 0xEB) example_pdi 200 1 [] = (False, []) \<and>
   avr_pdi_reg_read (constant_transport False 0xEB) example_pdi 200 [] = (0xFF, []) \<and>
   length ([] :: jtag_log) = 0"
proof -
  have h: "(16 :: uint8) \<le> 200" by simp
  from reg_out_of_range_no_transaction [OF h, of "constant_transport False 0xEB" example_pdi 1 "[]"] h
  show ?thesis by simp
qed

text \<open>
  C2, as stated, fails. Whichever value of the flag is read as "success", a device that
  answers every shift with that flag and the marker 0xEB makes \<open>avr_pdi_reg_read\<close>
  return the failure value 0xFF and not the shifted-out byte: the first shift is
  accepted only with the flag clear, the second only with the flag set. With the flag
  set throughout, \<open>avr_pdi_reg_write\<close> fails as well. And a byte other than 0xEB on
  the second phase of a read is the register value, not a failure.
\<close>

theorem always_marker_transport_counterexample:
  "avr_pdi_reg_read (constant_transport True 0xEB) example_pdi 0 [] =
     (0xFF, [JTAG_SHIFT_DR 0 0x80]) \<and>
   avr_pdi_reg_read (constant_transport False 0xEB) example_pdi 0 [] =
     (0xFF, [JTAG_SHIFT_DR 0 0x80, JTAG_SHIFT_DR 0 0x80]) \<and>
   avr_pdi_reg_write (constant_transport True 0xEB) example_pdi 0 0x55 [] =
     (False, [JTAG_SHIFT_DR 0 0xC0]) \<and>
   avr_pdi_reg_read (simulated_transport [(False, 0xEB), (True, 0x10)]) example_pdi 0 [] =
     (0x10, [JTAG_SHIFT_DR 0 0x80, JTAG_SHIFT_DR 0 0x80])"
  by (simp add: pdi_run pdi_fixtures)

text \<open>
  C2, amended. For every register index below 16: when both shifts of
  \<open>avr_pdi_reg_write\<close> come back with the flag clear and the marker 0xEB, it returns
  true; when the first shift of \<open>avr_pdi_reg_read\<close> comes back with the flag clear and
  the marker and the second with the flag set, it returns the byte the second shift
  captured. A byte other than 0xEB on either phase of the write makes it return false,
  and a byte other than 0xEB on the first phase of the read makes it return 0xFF
  without a second shift.
\<close>

theorem reg_handshake_marker_discipline:
  "reg < 16 \<Longrightarrow>
   (let jd = dp_jd_index pdi;
        w1 = log @ [JTAG_SHIFT_DR jd (PDI_STCS OR reg)];
        w2 = log @ [JTAG_SHIFT_DR jd (PDI_STCS OR reg), JTAG_SHIFT_DR jd v];
        r1 = log @ [JTAG_SHIFT_DR jd (PDI_LDCS OR reg)];
        r2 = log @ [JTAG_SHIFT_DR jd (PDI_LDCS OR reg), JTAG_SHIFT_DR jd (PDI_LDCS OR reg)]
    in (dev w1 = (False, PDI_EMPTY) \<and> dev w2 = (False, PDI_EMPTY) \<longrightarrow>
          avr_pdi_reg_write dev pdi reg v log = (True, w2)) \<and>
       (dev r1 = (False, PDI_EMPTY) \<and> fst (dev r2) \<longrightarrow>
          avr_pdi_reg_read dev pdi reg log = (snd (dev r2), r2)) \<and>
       (snd (dev w1) \<noteq> PDI_EMPTY \<or> snd (dev w2) \<noteq> PDI_EMPTY \<longrightarrow>
          \<not> fst (avr_pdi_reg_write dev pdi reg v log)) \<and>
       (snd (dev r1) \<noteq> PDI_EMPTY \<longrightarrow>
          avr_pdi_reg_read dev pdi reg log = (0xFF, r1)))"
  by (auto simp: avr_pdi_reg_write_unfold avr_pdi_reg_read_unfold Let_def not_le [symmetric])

theorem reg_handshake_marker_discipline_witness:
  "(3 :: uint8) < 16 \<and>
   avr_pdi_reg_write (simulated_transport [(False, 0xEB), (False, 0xEB)]) example_pdi 3 0x55 [] =
     (True, [JTAG_SHIFT_DR 0 0xC3, JTAG_SHIFT_DR 0 0x55]) \<and>
   avr_pdi_reg_read (simulated_transport [(False, 0xEB), (True, 0x42)]) example_pdi 3 [] =
     (0x42, [JTAG_SHIFT_DR 0 0x83, JTAG_SHIFT_DR 0 0x83]) \<and>
   \<not> fst (avr_pdi_reg_write (simulated_transport [(False, 0xEB), (False, 0xDB)]) example_pdi 3 0x55 []) \<and>
   avr_pdi_reg_read (constant_transport False 0xDB) example_pdi 3 [] =
     (0xFF, [JTAG_SHIFT_DR 0 0x83])"
proof -
  have h: "(3 :: uint8) < 16" by simp
  from reg_handshake_marker_discipline
         [OF h, where dev = "simulated_transport [(False, 0xEB), (False, 0xEB)]"
            and pdi = example_pdi and log = "[]" and v = "0x55"]
  have w: "avr_pdi_reg_write (simulated_transport [(False, 0xEB), (False, 0xEB)]) example_pdi 3 0x55 [] =
     (True, [JTAG_SHIFT_DR 0 0xC3, JTAG_SHIFT_DR 0 0x55])"
    by (simp add: Let_def simulated_transport_def pdi_consts example_pdi_def)
  from reg_handshake_marker_discipline
         [OF h, where dev = "simulated_transport [(False, 0xEB), (True, 0x42)]"
            and pdi = example_pdi and log = "[]" and v = "0x55"]
  have r: "avr_pdi_reg_read (simulated_transport [(False, 0xEB), (True, 0x42)]) example_pdi 3 [] =
     (0x42, [JTAG_SHIFT_DR 0 0x83, JTAG_SHIFT_DR 0 0x83])"
    by (simp add: Let_def simulated_transport_def pdi_consts example_pdi_def)
  from reg_handshake_marker_discipline
         [OF h, where dev = "simulated_transport [(False, 0xEB), (False, 0xDB)]"
            and pdi = example_pdi and log = "[]" and v = "0x55"]
  have wf: "\<not> fst (avr_pdi_reg_write (simulated_transport [(False, 0xEB), (False, 0xDB)])
                      example_pdi 3 0x55 [])"
    by (simp add: Let_def simulated_transport_def pdi_consts example_pdi_def)
  from reg_handshake_marker_discipline
         [OF h, where dev = "constant_transport False 0xDB"
            and pdi = example_pdi and log = "[]" and v = "0x55"]
  have rf: "avr_pdi_reg_read (constant_transport False 0xDB) example_pdi 3 [] =
     (0xFF, [JTAG_SHIFT_DR 0 0x83])"
    by (simp add: Let_def constant_transport_def pdi_consts example_pdi_def)
  from h w r wf rf show ?thesis by simp
qed

text \<open>A device that returns the same flag on every shift never gets a read through.\<close>

lemma uniform_flag_read_never_succeeds:
  "\<forall>l. fst (dev l) = flag \<Longrightarrow> fst (avr_pdi_reg_read dev pdi reg log) = 0xFF"
  by (simp add: avr_pdi_reg_read_unfold)

text \<open>
  C8. \<open>avr_pdi_reg_read\<close> returns the byte 0xFF on every failure path: the register
  index out of range, a shift whose returned flag the call rejects (set on the first
  shift, clear on the second), or a first response byte other than the marker. On the
  remaining path it returns the byte of the second shift, which can itself be 0xFF, so
  the result 0xFF does not tell a failure from a register that holds 0xFF.
\<close>

theorem reg_read_failure_sentinel:
  "(let jd = dp_jd_index pdi;
        r1 = log @ [JTAG_SHIFT_DR jd (PDI_LDCS OR reg)];
        r2 = log @ [JTAG_SHIFT_DR jd (PDI_LDCS OR reg), JTAG_SHIFT_DR jd (PDI_LDCS OR reg)]
    in (16 \<le> reg \<or> fst (dev r1) \<or> snd (dev r1) \<noteq> PDI_EMPTY \<or> \<not> fst (dev r2) \<longrightarrow>
          fst (avr_pdi_reg_read dev pdi reg log) = 0xFF) \<and>
       (\<not> (16 \<le> reg \<or> fst (dev r1) \<or> snd (dev r1) \<noteq> PDI_EMPTY \<or> \<not> fst (dev r2)) \<longrightarrow>
          fst (avr_pdi_reg_read dev pdi reg log) = snd (dev r2)) \<and>
       (reg < 16 \<and> dev r1 = (False, PDI_EMPTY) \<and> dev r2 = (True, 0xFF) \<longrightarrow>
          avr_pdi_reg_read dev pdi reg log = (0xFF, r2)))"
  by (auto simp: avr_pdi_reg_read_unfold Let_def not_le [symmetric])

theorem reg_read_failure_sentinel_witness:
  "fst (avr_pdi_reg_read (constant_transport False 0xDB) example_pdi 3 []) = 0xFF \<and>
   fst (avr_pdi_reg_read (constant_transport True 0xEB) example_pdi 3 []) = 0xFF \<and>
   fst (avr_pdi_reg_read (constant_transport False 0xEB) example_pdi 3 []) = 0xFF \<and>
   fst (avr_pdi_reg_read (constant_transport False 0xEB) example_pdi 16 []) = 0xFF \<and>
   fst (avr_pdi_reg_read (simulated_transport [(False, 0xEB), (True, 0x42)]) example_pdi 3 []) = 0x42 \<and>
   avr_pdi_reg_read (simulated_transport [(False, 0xEB), (True, 0xFF)]) example_pdi 3 [] =
     (0xFF, [JTAG_SHIFT_DR 0 0x83, JTAG_SHIFT_DR 0 0x83])"
proof -
  from reg_read_failure_sentinel
         [where dev = "constant_transport False 0xDB" and pdi = example_pdi and log = "[]" and reg = "3"]
  have a: "fst (avr_pdi_reg_read (constant_transport False 0xDB) example_pdi 3 []) = 0xFF"
    by (simp add: Let_def constant_transport_def pdi_consts)
  from reg_read_failure_sentinel
         [where dev = "constant_transport True 0xEB" and pdi = example_pdi and log = "[]" and reg = "3"]
  have b: "fst (avr_pdi_reg_read (constant_transport True 0xEB) example_pdi 3 []) = 0xFF"
    by (simp add: Let_def constant_transport_def pdi_consts)
  from reg_read_failure_sentinel
         [where dev = "constant_transport False 0xEB" and pdi = example_pdi and log = "[]" and reg = "3"]
  have c: "fst (avr_pdi_reg_read (constant_transport False 0xEB) example_pdi 3 []) = 0xFF"
    by (simp add: Let_def constant_transport_def pdi_consts)
  from reg_read_failure_sentinel
         [where dev = "constant_transport False 0xEB" and pdi = example_pdi and log = "[]" and reg = "16"]
  have d: "fst (avr_pdi_reg_read (constant_transport False 0xEB) example_pdi 16 []) = 0xFF"
    by (simp add: Let_def)
  from reg_read_failure_sentinel
         [where dev = "simulated_transport [(False, 0xEB), (True, 0x42)]"
            and pdi = example_pdi and log = "[]" and reg = "3"]
  have e: "fst (avr_pdi_reg_read (simulated_transport [(False, 0xEB), (True, 0x42)])
                  example_pdi 3 []) = 0x42"
    by (simp add: Let_def simulated_transport_def pdi_consts example_pdi_def)
  from reg_read_failure_sentinel
         [where dev = "simulated_transport [(False, 0xEB), (True, 0xFF)]"
            and pdi = example_pdi and log = "[]" and reg = "3"]
  have f: "avr_pdi_reg_read (simulated_transport [(False, 0xEB), (True, 0xFF)]) example_pdi 3 [] =
     (0xFF, [JTAG_SHIFT_DR 0 0x83, JTAG_SHIFT_DR 0 0x83])"
    by (simp add: Let_def simulated_transport_def pdi_consts example_pdi_def)
  from a b c d e f show ?thesis by simp
qed

section \<open>Properties of the initialisation\<close>

text \<open>
  C6. \<open>avr_pdi_init\<close> returns false in exactly two cases: the part-number field
  \<open>idcode AND 0x0FFFF000\<close> is zero, and then the context has been freed and nothing
  else was done, or \<open>target_new\<close> fails (the context is then still allocated). In every
  other case it returns true; when the prober does not recognise the device, the halt
  reason of the context is set to running and the result is still true.
\<close>

theorem avr_pdi_init_outcomes:
  "(\<not> fst (avr_pdi_init target_new atxmega_probe pdi log) \<longleftrightarrow>
      idcode pdi AND 0x0FFFF000 = 0 \<or> target_new = None) \<and>
   (idcode pdi AND 0x0FFFF000 = 0 \<longrightarrow>
      avr_pdi_init target_new atxmega_probe pdi log = (False, None, None, log)) \<and>
   (idcode pdi AND 0x0FFFF000 \<noteq> 0 \<and> target_new = None \<longrightarrow>
      avr_pdi_init target_new atxmega_probe pdi log =
        (False, Some pdi, None, log @ [JTAG_WRITE_IR (dp_jd_index pdi) IR_BYPASS])) \<and>
   (idcode pdi AND 0x0FFFF000 \<noteq> 0 \<and> target_new = Some t0 \<and>
    \<not> fst (atxmega_probe (avr_pdi_init_target t0 pdi) pdi) \<longrightarrow>
      fst (avr_pdi_init target_new atxmega_probe pdi log) \<and>
      (\<exists>ctx. fst (snd (avr_pdi_init target_new atxmega_probe pdi log)) = Some ctx \<and>
             halt_reason ctx = TARGET_HALT_RUNNING))"
  by (auto simp: avr_pdi_init_def jtag_dev_write_ir_def Let_def split: option.splits prod.splits)

theorem avr_pdi_init_outcomes_witness:
  "avr_pdi_init (Some blank_target) unrecognising_probe
     \<lparr>idcode = 0xF0000FFF, dp_jd_index = 0, halt_reason = TARGET_HALT_OTHER\<rparr> [] =
     (False, None, None, []) \<and>
   avr_pdi_init None unrecognising_probe example_pdi [] =
     (False, Some example_pdi, None, [JTAG_WRITE_IR 0 0xF]) \<and>
   fst (avr_pdi_init (Some blank_target) unrecognising_probe example_pdi []) \<and>
   map_option halt_reason
     (fst (snd (avr_pdi_init (Some blank_target) unrecognising_probe example_pdi []))) =
     Some TARGET_HALT_RUNNING"
proof -
  have z: "idcode \<lparr>idcode = 0xF0000FFF, dp_jd_index = 0, halt_reason = TARGET_HALT_OTHER\<rparr>
             AND 0x0FFFF000 = 0"
    by simp
  have nz: "idcode example_pdi AND 0x0FFFF000 \<noteq> 0"
    by (simp add: example_pdi_def)
  have np: "\<not> fst (unrecognising_probe (avr_pdi_init_target blank_target example_pdi) example_pdi)"
    by (simp add: unrecognising_probe_def)
  from avr_pdi_init_outcomes
         [where target_new = "Some blank_target" and atxmega_probe = unrecognising_probe
            and pdi = "\<lparr>idcode = 0xF0000FFF, dp_jd_index = 0, halt_reason = TARGET_HALT_OTHER\<rparr>"
            and log = "[]"] z
  have a: "avr_pdi_init (Some blank_target) unrecognising_probe
     \<lparr>idcode = 0xF0000FFF, dp_jd_index = 0, halt_reason = TARGET_HALT_OTHER\<rparr> [] =
     (False, None, None, [])"
    by blast
  from avr_pdi_init_outcomes
         [where target_new = None and atxmega_probe = unrecognising_probe
            and pdi = example_pdi and log = "[]"] nz
  have b: "avr_pdi_init None unrecognising_probe example_pdi [] =
     (False, Some example_pdi, None, [JTAG_WRITE_IR 0 0xF])"
    by (simp add: example_pdi_def IR_BYPASS_def)
  from avr_pdi_init_outcomes
         [where target_new = "Some blank_target" and atxmega_probe = unrecognising_probe
            and pdi = example_pdi and log = "[]" and ?t0.0 = blank_target] nz np
  have c: "fst (avr_pdi_init (Some blank_target) unrecognising_probe example_pdi []) \<and>
   map_option halt_reason
     (fst (snd (avr_pdi_init (Some blank_target) unrecognising_probe example_pdi []))) =
     Some TARGET_HALT_RUNNING"
    by auto
  from a b c show ?thesis by simp
qed

section \<open>Properties of the LPC43xx driver\<close>

subsection \<open>Auxiliary facts\<close>

lemma iap_calls_append: "iap_calls (xs @ ys) = iap_calls xs @ iap_calls ys"
  by (induction xs rule: iap_calls.induct) simp_all

lemma writes_to_append: "writes_to a (xs @ ys) = writes_to a xs @ writes_to a ys"
  by (induction a xs rule: writes_to.induct) simp_all

lemma lpc43xx_flash_init_unfold:
  "lpc43xx_flash_init h f tr =
     (let wdt_mode = mem_read32 h tr LPC43xx_WDT_MODE;
          tr' = tr @ (if wdt_mode \<noteq> 0 \<and> wdt_mode AND LPC43xx_WDT_PROTECT = 0
                      then [MEM_WRITE32 LPC43xx_WDT_CNT LPC43xx_WDT_PERIOD_MAX] else []) @
                     [MEM_WRITE32 LPC43xx_CGU_CPU_CLK
                        (LPC43xx_CGU_BASE_CLK_AUTOBLOCK OR LPC43xx_CGU_BASE_CLK_SEL_IRC),
                      IAP_CALL IAP_CMD_INIT []]
      in (iap_rom h f tr' = IAP_STATUS_CMD_SUCCESS, tr'))"
  by (simp add: lpc43xx_flash_init_def lpc43xx_wdt_set_period_def target_mem_read32_def
        target_mem_write32_def lpc_iap_call_def Let_def)

lemma flash_init_iap_calls:
  "iap_calls (snd (lpc43xx_flash_init h f tr)) = iap_calls tr @ [(IAP_CMD_INIT, [])]"
  by (simp add: lpc43xx_flash_init_unfold Let_def iap_calls_append)

lemma flash_init_ends_with_init:
  "\<exists>pre. snd (lpc43xx_flash_init h f tr) = pre @ [IAP_CALL IAP_CMD_INIT []]"
proof -
  have "snd (lpc43xx_flash_init h f tr) =
          (tr @ (if mem_read32 h tr LPC43xx_WDT_MODE \<noteq> 0 \<and>
                    mem_read32 h tr LPC43xx_WDT_MODE AND LPC43xx_WDT_PROTECT = 0
                 then [MEM_WRITE32 LPC43xx_WDT_CNT LPC43xx_WDT_PERIOD_MAX] else []) @
             [MEM_WRITE32 LPC43xx_CGU_CPU_CLK
                (LPC43xx_CGU_BASE_CLK_AUTOBLOCK OR LPC43xx_CGU_BASE_CLK_SEL_IRC)]) @
          [IAP_CALL IAP_CMD_INIT []]"
    by (simp add: lpc43xx_flash_init_unfold Let_def)
  then show ?thesis by blast
qed

lemma flash_init_result:
  "fst (lpc43xx_flash_init h f tr) =
     (iap_rom h f (snd (lpc43xx_flash_init h f tr)) = IAP_STATUS_CMD_SUCCESS)"
  by (simp add: lpc43xx_flash_init_unfold Let_def)

lemma lpc43xx_mass_erase_banks_done:
  "FLASH_NUM_BANK \<le> bnk \<Longrightarrow> lpc43xx_mass_erase_banks h f bnk tr = (True, tr)"
  by (simp add: lpc43xx_mass_erase_banks.simps [of h f bnk])

lemma lpc43xx_mass_erase_banks_step:
  "bnk < FLASH_NUM_BANK \<Longrightarrow>
   lpc43xx_mass_erase_banks h f bnk tr =
     (let P = IAP_CALL IAP_CMD_PREPARE [0, 14, of_nat bnk];
          E = IAP_CALL IAP_CMD_ERASE [0, 14, CPU_CLK_KHZ, of_nat bnk]
      in if iap_rom h f (tr @ [P]) \<noteq> 0 then (False, tr @ [P])
         else if iap_rom h f (tr @ [P, E]) \<noteq> 0 then (False, tr @ [P, E])
         else lpc43xx_mass_erase_banks h f (Suc bnk) (tr @ [P, E, PRINT_PROGRESS]))"
  by (simp add: lpc43xx_mass_erase_banks.simps [of h f bnk] lpc_iap_call_def
        target_print_progress_def Let_def FLASH_NUM_SECTOR_def)

lemma lpc43xx_mass_erase_banks_unfold:
  "lpc43xx_mass_erase_banks h f 0 tr =
     (let P0 = IAP_CALL IAP_CMD_PREPARE [0, 14, 0];
          E0 = IAP_CALL IAP_CMD_ERASE [0, 14, CPU_CLK_KHZ, 0];
          P1 = IAP_CALL IAP_CMD_PREPARE [0, 14, 1];
          E1 = IAP_CALL IAP_CMD_ERASE [0, 14, CPU_CLK_KHZ, 1]
      in if iap_rom h f (tr @ [P0]) \<noteq> 0 then (False, tr @ [P0])
         else if iap_rom h f (tr @ [P0, E0]) \<noteq> 0 then (False, tr @ [P0, E0])
         else if iap_rom h f (tr @ [P0, E0, PRINT_PROGRESS, P1]) \<noteq> 0
           then (False, tr @ [P0, E0, PRINT_PROGRESS, P1])
         else if iap_rom h f (tr @ [P0, E0, PRINT_PROGRESS, P1, E1]) \<noteq> 0
           then (False, tr @ [P0, E0, PRINT_PROGRESS, P1, E1])
         else (True, tr @ [P0, E0, PRINT_PROGRESS, P1, E1, PRINT_PROGRESS]))"
proof -
  have b0: "(0 :: nat) < FLASH_NUM_BANK" and b1: "Suc 0 < FLASH_NUM_BANK"
    and b2: "FLASH_NUM_BANK \<le> Suc (Suc 0)"
    by (simp_all add: FLASH_NUM_BANK_def)
  show ?thesis
    by (simp add: lpc43xx_mass_erase_banks_step [OF b0] lpc43xx_mass_erase_banks_step [OF b1]
          lpc43xx_mass_erase_banks_done [OF b2] Let_def)
qed

lemma lpc43xx_mass_erase_unfold:
  "flash t = f # fs \<Longrightarrow>
   lpc43xx_mass_erase h t tr =
     Some (lpc43xx_mass_erase_banks h f 0 (snd (lpc43xx_flash_init h f tr)))"
  by (simp add: lpc43xx_mass_erase_def split: prod.splits)

lemma lpc43xx_cmd_mkboot_valid_bank:
  "flash t = f # fs \<Longrightarrow> 2 \<le> length argv \<Longrightarrow>
   (word_of_nat (strtoul (argv ! 1) 0) :: uint32) \<le> 1 \<Longrightarrow>
   lpc43xx_cmd_mkboot h t 2 argv tr =
     (let tr0 = snd (lpc43xx_flash_init h f tr);
          tr1 = tr0 @ [IAP_CALL IAP_CMD_SET_ACTIVE_BANK
                         [word_of_nat (strtoul (argv ! 1) 0), CPU_CLK_KHZ]]
      in if iap_rom h f tr1 \<noteq> 0
         then Some (False, tr1 @ [TC_PRINTF ''Set bootable failed.\<newline>''])
         else Some (True, tr1 @ [TC_PRINTF ''Set bootable OK.\<newline>'']))"
  by (simp add: lpc43xx_cmd_mkboot_def lpc_iap_call_def tc_printf_def Let_def
        not_less [symmetric] split: prod.splits)

lemmas strtoul_run = strtoul_def isspace_def digit_value_def ULONG_MAX_def

lemma strtoul_examples:
  "strtoul ''abc'' 0 = 0" "strtoul ''2'' 0 = 2" "strtoul ''-1'' 0 = 4294967295"
  "strtoul ''1'' 0 = 1" "strtoul ''0'' 0 = 0"
  by (simp_all add: strtoul_run)

lemma simulated_hw_reads:
  "mem_read32 (simulated_hw wdt_mode chipid statuses) tr LPC43xx_WDT_MODE = wdt_mode"
  "mem_read32 (simulated_hw wdt_mode chipid statuses) tr LPC43xx_CHIPID = chipid"
  "mem_read32 (simulated_hw wdt_mode chipid statuses) tr IAP_ENTRYPOINT_LOCATION = 0"
  by (simp_all add: simulated_hw_def LPC43xx_WDT_MODE_def LPC43xx_CHIPID_def
        IAP_ENTRYPOINT_LOCATION_def)

lemma simulated_hw_iap_rom:
  "iap_rom (simulated_hw wdt_mode chipid statuses) f tr =
     (let n = length (filter is_iap_call tr) in
      if 0 < n \<and> n \<le> length statuses then statuses ! (n - 1) else 0)"
  by (simp add: simulated_hw_def)

lemma example_flash_target_flash: "flash example_flash_target = example_flash # []"
  by (simp add: example_flash_target_def blank_target_def)

lemma simulated_hw_flash_init:
  "lpc43xx_flash_init (simulated_hw wdt_mode chipid statuses) f [] =
     (let tr' = (if wdt_mode \<noteq> 0 \<and> wdt_mode AND LPC43xx_WDT_PROTECT = 0
                 then [MEM_WRITE32 LPC43xx_WDT_CNT LPC43xx_WDT_PERIOD_MAX] else []) @
                [MEM_WRITE32 LPC43xx_CGU_CPU_CLK
                   (LPC43xx_CGU_BASE_CLK_AUTOBLOCK OR LPC43xx_CGU_BASE_CLK_SEL_IRC),
                 IAP_CALL IAP_CMD_INIT []]
      in ((if statuses = [] then 0 else hd statuses) = IAP_STATUS_CMD_SUCCESS, tr'))"
  by (cases statuses) (simp_all add: lpc43xx_flash_init_unfold simulated_hw_reads
        simulated_hw_iap_rom Let_def)

subsection \<open>Mass erase\<close>

text \<open>
  C3. \<open>lpc43xx_mass_erase\<close> processes bank 0, then bank 1. For each bank it issues the
  ROM PREPARE call for sectors 0 to 14 and then the ROM ERASE call for the same range,
  and it returns false at the first of the four calls whose status is not zero,
  issuing nothing after it. In the run where PREPARE and ERASE of bank 0 succeed and
  PREPARE of bank 1 fails, the result is false and the ROM calls issued are INIT,
  PREPARE and ERASE of bank 0 and PREPARE of bank 1: no ERASE for bank 1, and nothing
  after the successful erase of bank 0 that would undo it.
\<close>

theorem mass_erase_bank_sequence:
  "flash t = f # fs \<Longrightarrow>
   (let tr0 = snd (lpc43xx_flash_init h f tr);
        P0 = IAP_CALL IAP_CMD_PREPARE [0, 14, 0];
        E0 = IAP_CALL IAP_CMD_ERASE [0, 14, CPU_CLK_KHZ, 0];
        P1 = IAP_CALL IAP_CMD_PREPARE [0, 14, 1];
        E1 = IAP_CALL IAP_CMD_ERASE [0, 14, CPU_CLK_KHZ, 1]
    in lpc43xx_mass_erase h t tr = Some
         (if iap_rom h f (tr0 @ [P0]) \<noteq> 0 then (False, tr0 @ [P0])
          else if iap_rom h f (tr0 @ [P0, E0]) \<noteq> 0 then (False, tr0 @ [P0, E0])
          else if iap_rom h f (tr0 @ [P0, E0, PRINT_PROGRESS, P1]) \<noteq> 0
            then (False, tr0 @ [P0, E0, PRINT_PROGRESS, P1])
          else if iap_rom h f (tr0 @ [P0, E0, PRINT_PROGRESS, P1, E1]) \<noteq> 0
            then (False, tr0 @ [P0, E0, PRINT_PROGRESS, P1, E1])
          else (True, tr0 @ [P0, E0, PRINT_PROGRESS, P1, E1, PRINT_PROGRESS])) \<and>
       (iap_rom h f (tr0 @ [P0]) = 0 \<and> iap_rom h f (tr0 @ [P0, E0]) = 0 \<and>
        iap_rom h f (tr0 @ [P0, E0, PRINT_PROGRESS, P1]) \<noteq> 0 \<longrightarrow>
          (\<exists>tr'. lpc43xx_mass_erase h t tr = Some (False, tr') \<and>
                 iap_calls tr' = iap_calls tr @
                   [(IAP_CMD_INIT, []),
                    (IAP_CMD_PREPARE, [0, 14, 0]),
                    (IAP_CMD_ERASE, [0, 14, CPU_CLK_KHZ, 0]),
                    (IAP_CMD_PREPARE, [0, 14, 1])])))"
  by (simp add: lpc43xx_mass_erase_unfold lpc43xx_mass_erase_banks_unfold Let_def
        flash_init_iap_calls iap_calls_append)

theorem mass_erase_bank_sequence_witness:
  "flash example_flash_target = example_flash # [] \<and>
   lpc43xx_mass_erase (simulated_hw 1 0 [0, 0, 0, 5]) example_flash_target [] =
     Some (False,
           [MEM_WRITE32 LPC43xx_WDT_CNT LPC43xx_WDT_PERIOD_MAX,
            MEM_WRITE32 LPC43xx_CGU_CPU_CLK
              (LPC43xx_CGU_BASE_CLK_AUTOBLOCK OR LPC43xx_CGU_BASE_CLK_SEL_IRC),
            IAP_CALL IAP_CMD_INIT [],
            IAP_CALL IAP_CMD_PREPARE [0, 14, 0],
            IAP_CALL IAP_CMD_ERASE [0, 14, CPU_CLK_KHZ, 0],
            PRINT_PROGRESS,
            IAP_CALL IAP_CMD_PREPARE [0, 14, 1]])"
proof -
  from mass_erase_bank_sequence
         [OF example_flash_target_flash, of "simulated_hw 1 0 [0, 0, 0, 5]" "[]"]
  have "lpc43xx_mass_erase (simulated_hw 1 0 [0, 0, 0, 5]) example_flash_target [] =
     Some (False,
           [MEM_WRITE32 LPC43xx_WDT_CNT LPC43xx_WDT_PERIOD_MAX,
            MEM_WRITE32 LPC43xx_CGU_CPU_CLK
              (LPC43xx_CGU_BASE_CLK_AUTOBLOCK OR LPC43xx_CGU_BASE_CLK_SEL_IRC),
            IAP_CALL IAP_CMD_INIT [],
            IAP_CALL IAP_CMD_PREPARE [0, 14, 0],
            IAP_CALL IAP_CMD_ERASE [0, 14, CPU_CLK_KHZ, 0],
            PRINT_PROGRESS,
            IAP_CALL IAP_CMD_PREPARE [0, 14, 1]])"
    by (simp add: Let_def simulated_hw_flash_init simulated_hw_iap_rom LPC43xx_WDT_PROTECT_def)
  with example_flash_target_flash show ?thesis by simp
qed

subsection \<open>The mkboot command\<close>

text \<open>
  The parts of the bank check that hold: a wrong argument count is rejected, and so is
  every argument whose value as read by \<open>strtoul\<close> is above 1, among them \<open>2\<close> and
  \<open>-1\<close>. In each case only the message is printed: no memory write, no ROM call.
\<close>

lemma mkboot_rejects_argument_count:
  "argc \<noteq> 2 \<Longrightarrow>
   lpc43xx_cmd_mkboot h t argc argv tr =
     Some (False, tr @ [TC_PRINTF ''Expected bank argument 0 or 1.\<newline>''])"
  by (simp add: lpc43xx_cmd_mkboot_def tc_printf_def)

lemma mkboot_rejects_bank_above_1:
  "2 \<le> length argv \<Longrightarrow> 1 < (word_of_nat (strtoul (argv ! 1) 0) :: uint32) \<Longrightarrow>
   lpc43xx_cmd_mkboot h t 2 argv tr =
     Some (False, tr @ [TC_PRINTF ''Unexpected bank number, should be 0 or 1.\<newline>''])"
  by (simp add: lpc43xx_cmd_mkboot_def tc_printf_def Let_def)

lemma mkboot_rejects_2_and_minus_1:
  "lpc43xx_cmd_mkboot h t 2 [''mkboot'', ''2''] tr =
     Some (False, tr @ [TC_PRINTF ''Unexpected bank number, should be 0 or 1.\<newline>''])"
  "lpc43xx_cmd_mkboot h t 2 [''mkboot'', ''-1''] tr =
     Some (False, tr @ [TC_PRINTF ''Unexpected bank number, should be 0 or 1.\<newline>''])"
  by (simp_all add: mkboot_rejects_bank_above_1 strtoul_examples)

text \<open>
  An argument that does not start with a digit (nor with white space or a sign) is read
  by \<open>strtoul\<close> as 0, since the end pointer is not inspected, and the command goes on
  with bank 0.
\<close>

lemma strtoul_no_leading_digit:
  assumes "s = c # cs" and "\<not> isspace c" and "c \<noteq> CHR ''-''" and "c \<noteq> CHR ''+''"
    and "\<forall>d. digit_value c = Some d \<longrightarrow> 10 \<le> d"
  shows "strtoul s 0 = 0"
proof -
  have "digit_value CHR ''0'' = Some 0"
    by (simp add: digit_value_def)
  with assms(5) have c0: "c \<noteq> CHR ''0''"
    by auto
  have dw: "dropWhile isspace (c # cs) = c # cs"
    using assms(2) by simp
  have dg: "strtoul_digits 10 (c # cs) 0 = 0"
    using assms(5) by (cases "digit_value c") (auto simp: not_less [symmetric])
  have pre: "take 2 (c # cs) \<noteq> ''0x''" "take 2 (c # cs) \<noteq> ''0X''" "take 1 (c # cs) \<noteq> ''0''"
    using c0 by (auto simp: take_Suc_conv_app_nth numeral_2_eq_2)
  show ?thesis
    unfolding strtoul_def Let_def assms(1) dw
    using assms(3,4) pre dg by simp
qed

lemma mkboot_accepts_no_leading_digit:
  assumes "flash t = f # fs" and "argv = [name, c # cs]"
    and "\<not> isspace c" and "c \<noteq> CHR ''-''" and "c \<noteq> CHR ''+''"
    and "\<forall>d. digit_value c = Some d \<longrightarrow> 10 \<le> d"
  shows "\<exists>ok msg. lpc43xx_cmd_mkboot h t 2 argv tr =
           Some (ok, snd (lpc43xx_flash_init h f tr) @
                     [IAP_CALL IAP_CMD_SET_ACTIVE_BANK [0, CPU_CLK_KHZ], TC_PRINTF msg])"
proof -
  have z: "strtoul (argv ! 1) 0 = 0"
    using assms by (simp add: strtoul_no_leading_digit [of "c # cs" c cs])
  have len: "2 \<le> length argv" using assms by simp
  show ?thesis
    using lpc43xx_cmd_mkboot_valid_bank [OF assms(1) len, of h tr] z
    by (auto simp: Let_def)
qed

text \<open>
  C4. \<open>lpc43xx_cmd_mkboot\<close> is meant to accept the bank arguments 0 and 1 only (its
  usage comment and its messages say so), and to reject everything else before any
  ROM call. The source does not do that for a non-numeric argument: for \<open>mkboot abc\<close>
  it initialises the flash, issues the ROM call SET_ACTIVE_BANK for bank 0 and
  reports success.
\<close>

theorem mkboot_non_numeric_argument_accepted:
  "lpc43xx_cmd_mkboot (simulated_hw 0 0 []) example_flash_target 2 [''mkboot'', ''abc''] [] =
     Some (True,
           [MEM_WRITE32 LPC43xx_CGU_CPU_CLK
              (LPC43xx_CGU_BASE_CLK_AUTOBLOCK OR LPC43xx_CGU_BASE_CLK_SEL_IRC),
            IAP_CALL IAP_CMD_INIT [],
            IAP_CALL IAP_CMD_SET_ACTIVE_BANK [0, CPU_CLK_KHZ],
            TC_PRINTF ''Set bootable OK.\<newline>''])"
  by (simp add: lpc43xx_cmd_mkboot_valid_bank [OF example_flash_target_flash] strtoul_examples
        simulated_hw_flash_init simulated_hw_iap_rom Let_def)

subsection \<open>Probe\<close>

text \<open>
  C5. \<open>lpc43xx_probe\<close> reads the chip-ID register and returns false, leaving the target
  as it was, whenever the family field (the low 28 bits) differs from 0x0906002b. With
  a matching family, chip codes 4 and 7 both take the flash-bearing path: the result
  is the same target for either code, with three RAM windows and four flash regions
  (banks, base sectors, addresses, lengths and block sizes as listed), the commands
  and the option that inhibits the reset pin. Chip codes 5 and 6 take the flash-less
  path, which registers nothing, and every other chip code makes the probe return
  false.
\<close>

theorem probe_chip_code_dispatch:
  "(let chipid = mem_read32 h tr LPC43xx_CHIPID;
        chip_code = drop_bit 28 (chipid AND 0xf0000000);
        entry = mem_read32 h tr IAP_ENTRYPOINT_LOCATION;
        t' = t\<lparr>driver := ''LPC43xx'', mass_erase := Some CB_lpc43xx_mass_erase\<rparr>;
        region = (\<lambda>bnk base addr len bs.
                    \<lparr>f_start = addr, f_length = len, f_blocksize = bs, f_buf_size = 4096,
                     f_erase = Some CB_lpc43xx_flash_erase, bank = bnk, base_sector = base,
                     iap_entry = entry, iap_ram = 0x2000c000, iap_msp = 0x20010000,
                     wdt_kick = Some CB_lpc43xx_wdt_kick\<rparr>)
    in (chipid AND 0x0fffffff \<noteq> 0x0906002b \<longrightarrow> lpc43xx_probe h tr t = (False, t)) \<and>
       (chipid AND 0x0fffffff = 0x0906002b \<longrightarrow>
          (chip_code = 4 \<or> chip_code = 7 \<longrightarrow>
             lpc43xx_probe h tr t =
               (True, t'\<lparr>target_options := target_options t OR 4,
                         ram := ram t @ [\<lparr>ram_start = 0, ram_length = 0x1A000000\<rparr>,
                                         \<lparr>ram_start = 0x1A080000, ram_length = 0xF80000\<rparr>,
                                         \<lparr>ram_start = 0x1B080000, ram_length = 0xE4F80000\<rparr>],
                         flash := flash t @ [region 0 0 0x1A000000 0x10000 0x2000,
                                             region 0 8 0x1A010000 0x70000 0x10000,
                                             region 1 0 0x1B000000 0x10000 0x2000,
                                             region 1 8 0x1B010000 0x70000 0x10000],
                         commands := commands t @ [(''LPC43xx'', [''reset'', ''mkboot''])]\<rparr>)) \<and>
          (chip_code = 5 \<or> chip_code = 6 \<longrightarrow> lpc43xx_probe h tr t = (True, t')) \<and>
          (chip_code \<noteq> 4 \<and> chip_code \<noteq> 5 \<and> chip_code \<noteq> 6 \<and> chip_code \<noteq> 7 \<longrightarrow>
             fst (lpc43xx_probe h tr t) = False)))"
  by (simp add: lpc43xx_probe_def lpc43xx_detect_flash_def lpc43xx_detect_flashless_def
        lpc43xx_add_flash_def lpc_add_flash_def target_add_ram_def target_add_commands_def
        target_mem_read32_def lpc43xx_cmd_list_def Let_def
        LPC43xx_CHIPID_FAMILY_MASK_def LPC43xx_CHIPID_FAMILY_CODE_def LPC43xx_CHIPID_CHIP_MASK_def
        LPC43xx_CHIPID_CHIP_SHIFT_def IAP_PGM_CHUNKSIZE_def IAP_RAM_BASE_def IAP_RAM_SIZE_def
        LPC43xx_ETBAHB_SRAM_BASE_def LPC43xx_ETBAHB_SRAM_SIZE_def CORTEXM_TOPT_INHIBIT_NRST_def)

theorem probe_chip_code_dispatch_witness:
  "lpc43xx_probe (simulated_hw 0 0x4906002b []) [] blank_target =
     lpc43xx_probe (simulated_hw 0 0x7906002b []) [] blank_target \<and>
   fst (lpc43xx_probe (simulated_hw 0 0x4906002b []) [] blank_target) \<and>
   map (\<lambda>r. (bank r, base_sector r, f_start r, f_length r, f_blocksize r))
     (flash (snd (lpc43xx_probe (simulated_hw 0 0x4906002b []) [] blank_target))) =
     [(0, 0, 0x1A000000, 0x10000, 0x2000), (0, 8, 0x1A010000, 0x70000, 0x10000),
      (1, 0, 0x1B000000, 0x10000, 0x2000), (1, 8, 0x1B010000, 0x70000, 0x10000)] \<and>
   lpc43xx_probe (simulated_hw 0 0x5906002b []) [] blank_target =
     (True, blank_target\<lparr>driver := ''LPC43xx'', mass_erase := Some CB_lpc43xx_mass_erase\<rparr>) \<and>
   lpc43xx_probe (simulated_hw 0 0x6906002b []) [] blank_target =
     (True, blank_target\<lparr>driver := ''LPC43xx'', mass_erase := Some CB_lpc43xx_mass_erase\<rparr>) \<and>
   \<not> fst (lpc43xx_probe (simulated_hw 0 0x3906002b []) [] blank_target) \<and>
   lpc43xx_probe (simulated_hw 0 0x4906002c []) [] blank_target = (False, blank_target)"
proof -
  note run = Let_def simulated_hw_reads
  from probe_chip_code_dispatch [of "simulated_hw 0 0x4906002b []" "[]" blank_target]
  have a: "lpc43xx_probe (simulated_hw 0 0x4906002b []) [] blank_target =
     (True, blank_target
        \<lparr>driver := ''LPC43xx'', mass_erase := Some CB_lpc43xx_mass_erase,
         target_options := target_options blank_target OR 4,
         ram := ram blank_target @ [\<lparr>ram_start = 0, ram_length = 0x1A000000\<rparr>,
                         \<lparr>ram_start = 0x1A080000, ram_length = 0xF80000\<rparr>,
                         \<lparr>ram_start = 0x1B080000, ram_length = 0xE4F80000\<rparr>],
         flash := flash blank_target @
            map (\<lambda>(bnk, base, addr, len, bs).
                    \<lparr>f_start = addr, f_length = len, f_blocksize = bs, f_buf_size = 4096,
                     f_erase = Some CB_lpc43xx_flash_erase, bank = bnk, base_sector = base,
                     iap_entry = 0, iap_ram = 0x2000c000, iap_msp = 0x20010000,
                     wdt_kick = Some CB_lpc43xx_wdt_kick\<rparr>)
              [(0, 0, 0x1A000000, 0x10000, 0x2000), (0, 8, 0x1A010000, 0x70000, 0x10000),
               (1, 0, 0x1B000000, 0x10000, 0x2000), (1, 8, 0x1B010000, 0x70000, 0x10000)],
         commands := commands blank_target @ [(''LPC43xx'', [''reset'', ''mkboot''])]\<rparr>)"
    by (simp add: run)
  from probe_chip_code_dispatch [of "simulated_hw 0 0x7906002b []" "[]" blank_target]
  have b: "lpc43xx_probe (simulated_hw 0 0x7906002b []) [] blank_target =
     (True, blank_target
        \<lparr>driver := ''LPC43xx'', mass_erase := Some CB_lpc43xx_mass_erase,
         target_options := target_options blank_target OR 4,
         ram := ram blank_target @ [\<lparr>ram_start = 0, ram_length = 0x1A000000\<rparr>,
                         \<lparr>ram_start = 0x1A080000, ram_length = 0xF80000\<rparr>,
                         \<lparr>ram_start = 0x1B080000, ram_length = 0xE4F80000\<rparr>],
         flash := flash blank_target @
            map (\<lambda>(bnk, base, addr, len, bs).
                    \<lparr>f_start = addr, f_length = len, f_blocksize = bs, f_buf_size = 4096,
                     f_erase = Some CB_lpc43xx_flash_erase, bank = bnk, base_sector = base,
                     iap_entry = 0, iap_ram = 0x2000c000, iap_msp = 0x20010000,
                     wdt_kick = Some CB_lpc43xx_wdt_kick\<rparr>)
              [(0, 0, 0x1A000000, 0x10000, 0x2000), (0, 8, 0x1A010000, 0x70000, 0x10000),
               (1, 0, 0x1B000000, 0x10000, 0x2000), (1, 8, 0x1B010000, 0x70000, 0x10000)],
         commands := commands blank_target @ [(''LPC43xx'', [''reset'', ''mkboot''])]\<rparr>)"
    by (simp add: run)
  from probe_chip_code_dispatch [of "simulated_hw 0 0x5906002b []" "[]" blank_target]
  have c: "lpc43xx_probe (simulated_hw 0 0x5906002b []) [] blank_target =
     (True, blank_target\<lparr>driver := ''LPC43xx'', mass_erase := Some CB_lpc43xx_mass_erase\<rparr>)"
    by (simp add: run)
  from probe_chip_code_dispatch [of "simulated_hw 0 0x6906002b []" "[]" blank_target]
  have d: "lpc43xx_probe (simulated_hw 0 0x6906002b []) [] blank_target =
     (True, blank_target\<lparr>driver := ''LPC43xx'', mass_erase := Some CB_lpc43xx_mass_erase\<rparr>)"
    by (simp add: run)
  from probe_chip_code_dispatch [of "simulated_hw 0 0x3906002b []" "[]" blank_target]
  have e: "\<not> fst (lpc43xx_probe (simulated_hw 0 0x3906002b []) [] blank_target)"
    by (simp add: run)
  from probe_chip_code_dispatch [of "simulated_hw 0 0x4906002c []" "[]" blank_target]
  have f: "lpc43xx_probe (simulated_hw 0 0x4906002c []) [] blank_target = (False, blank_target)"
    by (simp add: run)
  from a b c d e f show ?thesis by (simp add: blank_target_def)
qed

subsection \<open>Flash initialisation and the watchdog\<close>

text \<open>
  C9. \<open>lpc43xx_flash_init\<close> deals with the watchdog, then writes the clock register to
  force the internal clock, then issues the ROM INIT call, and returns true exactly
  when the status of that call is the success code. When the watchdog mode register
  reads as enabled (not zero) and not protected, exactly one write sets the watchdog
  count, to the maximum period 0xffffff, before the clock write. When it reads as
  enabled and protected, or as disabled (zero), the count is not written.
\<close>

theorem flash_init_watchdog_handling:
  "(let wdt_mode = mem_read32 h tr LPC43xx_WDT_MODE;
        cnt = MEM_WRITE32 LPC43xx_WDT_CNT LPC43xx_WDT_PERIOD_MAX;
        clk = MEM_WRITE32 LPC43xx_CGU_CPU_CLK
                (LPC43xx_CGU_BASE_CLK_AUTOBLOCK OR LPC43xx_CGU_BASE_CLK_SEL_IRC);
        init = IAP_CALL IAP_CMD_INIT []
    in (wdt_mode \<noteq> 0 \<and> wdt_mode AND LPC43xx_WDT_PROTECT = 0 \<longrightarrow>
          lpc43xx_flash_init h f tr =
            (iap_rom h f (tr @ [cnt, clk, init]) = IAP_STATUS_CMD_SUCCESS, tr @ [cnt, clk, init]) \<and>
          writes_to LPC43xx_WDT_CNT (snd (lpc43xx_flash_init h f tr)) =
            writes_to LPC43xx_WDT_CNT tr @ [LPC43xx_WDT_PERIOD_MAX]) \<and>
       (wdt_mode \<noteq> 0 \<and> wdt_mode AND LPC43xx_WDT_PROTECT \<noteq> 0 \<longrightarrow>
          lpc43xx_flash_init h f tr =
            (iap_rom h f (tr @ [clk, init]) = IAP_STATUS_CMD_SUCCESS, tr @ [clk, init]) \<and>
          writes_to LPC43xx_WDT_CNT (snd (lpc43xx_flash_init h f tr)) =
            writes_to LPC43xx_WDT_CNT tr) \<and>
       (wdt_mode = 0 \<longrightarrow>
          lpc43xx_flash_init h f tr =
            (iap_rom h f (tr @ [clk, init]) = IAP_STATUS_CMD_SUCCESS, tr @ [clk, init]) \<and>
          writes_to LPC43xx_WDT_CNT (snd (lpc43xx_flash_init h f tr)) =
            writes_to LPC43xx_WDT_CNT tr))"
  by (simp add: lpc43xx_flash_init_unfold Let_def writes_to_append
        LPC43xx_WDT_CNT_def LPC43xx_CGU_CPU_CLK_def LPC43xx_CGU_BASE_def)

theorem flash_init_watchdog_handling_witness:
  "lpc43xx_flash_init (simulated_hw 1 0 []) example_flash [] =
     (True, [MEM_WRITE32 LPC43xx_WDT_CNT LPC43xx_WDT_PERIOD_MAX,
             MEM_WRITE32 LPC43xx_CGU_CPU_CLK
               (LPC43xx_CGU_BASE_CLK_AUTOBLOCK OR LPC43xx_CGU_BASE_CLK_SEL_IRC),
             IAP_CALL IAP_CMD_INIT []]) \<and>
   lpc43xx_flash_init (simulated_hw 0x11 0 [7]) example_flash [] =
     (False, [MEM_WRITE32 LPC43xx_CGU_CPU_CLK
                (LPC43xx_CGU_BASE_CLK_AUTOBLOCK OR LPC43xx_CGU_BASE_CLK_SEL_IRC),
              IAP_CALL IAP_CMD_INIT []]) \<and>
   lpc43xx_flash_init (simulated_hw 0 0 []) example_flash [] =
     (True, [MEM_WRITE32 LPC43xx_CGU_CPU_CLK
               (LPC43xx_CGU_BASE_CLK_AUTOBLOCK OR LPC43xx_CGU_BASE_CLK_SEL_IRC),
             IAP_CALL IAP_CMD_INIT []])"
proof -
  have u: "mem_read32 (simulated_hw 1 0 []) [] LPC43xx_WDT_MODE \<noteq> 0 \<and>
           mem_read32 (simulated_hw 1 0 []) [] LPC43xx_WDT_MODE AND LPC43xx_WDT_PROTECT = 0"
    by (simp add: simulated_hw_reads LPC43xx_WDT_PROTECT_def)
  have l: "mem_read32 (simulated_hw 0x11 0 [7]) [] LPC43xx_WDT_MODE \<noteq> 0 \<and>
           mem_read32 (simulated_hw 0x11 0 [7]) [] LPC43xx_WDT_MODE AND LPC43xx_WDT_PROTECT \<noteq> 0"
    by (simp add: simulated_hw_reads LPC43xx_WDT_PROTECT_def)
  have d: "mem_read32 (simulated_hw 0 0 []) [] LPC43xx_WDT_MODE = 0"
    by (simp add: simulated_hw_reads)
  from flash_init_watchdog_handling [of "simulated_hw 1 0 []" "[]" example_flash] u
  have a: "lpc43xx_flash_init (simulated_hw 1 0 []) example_flash [] =
     (True, [MEM_WRITE32 LPC43xx_WDT_CNT LPC43xx_WDT_PERIOD_MAX,
             MEM_WRITE32 LPC43xx_CGU_CPU_CLK
               (LPC43xx_CGU_BASE_CLK_AUTOBLOCK OR LPC43xx_CGU_BASE_CLK_SEL_IRC),
             IAP_CALL IAP_CMD_INIT []])"
    by (simp add: Let_def simulated_hw_iap_rom IAP_STATUS_CMD_SUCCESS_def)
  from flash_init_watchdog_handling [of "simulated_hw 0x11 0 [7]" "[]" example_flash] l
  have b: "lpc43xx_flash_init (simulated_hw 0x11 0 [7]) example_flash [] =
     (False, [MEM_WRITE32 LPC43xx_CGU_CPU_CLK
                (LPC43xx_CGU_BASE_CLK_AUTOBLOCK OR LPC43xx_CGU_BASE_CLK_SEL_IRC),
              IAP_CALL IAP_CMD_INIT []])"
    by (simp add: Let_def simulated_hw_iap_rom IAP_STATUS_CMD_SUCCESS_def)
  from flash_init_watchdog_handling [of "simulated_hw 0 0 []" "[]" example_flash] d
  have c: "lpc43xx_flash_init (simulated_hw 0 0 []) example_flash [] =
     (True, [MEM_WRITE32 LPC43xx_CGU_CPU_CLK
               (LPC43xx_CGU_BASE_CLK_AUTOBLOCK OR LPC43xx_CGU_BASE_CLK_SEL_IRC),
             IAP_CALL IAP_CMD_INIT []])"
    by (simp add: Let_def simulated_hw_iap_rom IAP_STATUS_CMD_SUCCESS_def)
  from a b c show ?thesis by simp
qed

text \<open>
  C10. \<open>lpc43xx_mass_erase\<close> and \<open>lpc43xx_cmd_mkboot\<close> call \<open>lpc43xx_flash_init\<close> and
  drop its result. In every run where the ROM INIT call (the last event of the
  initialisation) reports a status other than success, the initialisation returns
  false, and yet the mass erase goes on to issue PREPARE for bank 0 and the mkboot
  command, given a valid bank argument, goes on to issue SET_ACTIVE_BANK. Only
  \<open>lpc43xx_flash_erase\<close> turns the failed initialisation into an error, \<open>-1\<close>, without
  calling the shared erase primitive.
\<close>

theorem flash_init_failure_not_propagated:
  "flash t = f # fs \<Longrightarrow>
   iap_rom h f (snd (lpc43xx_flash_init h f tr)) \<noteq> IAP_STATUS_CMD_SUCCESS \<Longrightarrow>
   (let tr0 = snd (lpc43xx_flash_init h f tr) in
      (\<exists>pre. tr0 = pre @ [IAP_CALL IAP_CMD_INIT []]) \<and>
      \<not> fst (lpc43xx_flash_init h f tr) \<and>
      (\<exists>ok rest. lpc43xx_mass_erase h t tr =
                   Some (ok, tr0 @ IAP_CALL IAP_CMD_PREPARE [0, 14, 0] # rest)) \<and>
      (argc = 2 \<and> 2 \<le> length argv \<and> (word_of_nat (strtoul (argv ! 1) 0) :: uint32) \<le> 1 \<longrightarrow>
         (\<exists>ok msg. lpc43xx_cmd_mkboot h t argc argv tr =
                     Some (ok, tr0 @ [IAP_CALL IAP_CMD_SET_ACTIVE_BANK
                                        [word_of_nat (strtoul (argv ! 1) 0), CPU_CLK_KHZ],
                                      TC_PRINTF msg]))) \<and>
      lpc43xx_flash_erase h f addr len tr = (- 1, tr0))"
proof -
  assume fl: "flash t = f # fs"
    and ns: "iap_rom h f (snd (lpc43xx_flash_init h f tr)) \<noteq> IAP_STATUS_CMD_SUCCESS"
  let ?tr0 = "snd (lpc43xx_flash_init h f tr)"
  have a: "\<exists>pre. ?tr0 = pre @ [IAP_CALL IAP_CMD_INIT []]"
    by (rule flash_init_ends_with_init)
  have b: "\<not> fst (lpc43xx_flash_init h f tr)"
    using ns by (simp add: flash_init_result)
  have c: "\<exists>ok rest. lpc43xx_mass_erase h t tr =
                   Some (ok, ?tr0 @ IAP_CALL IAP_CMD_PREPARE [0, 14, 0] # rest)"
    by (auto simp: lpc43xx_mass_erase_unfold [OF fl] lpc43xx_mass_erase_banks_unfold Let_def)
  have d: "argc = 2 \<and> 2 \<le> length argv \<and> (word_of_nat (strtoul (argv ! 1) 0) :: uint32) \<le> 1 \<longrightarrow>
         (\<exists>ok msg. lpc43xx_cmd_mkboot h t argc argv tr =
                     Some (ok, ?tr0 @ [IAP_CALL IAP_CMD_SET_ACTIVE_BANK
                                        [word_of_nat (strtoul (argv ! 1) 0), CPU_CLK_KHZ],
                                      TC_PRINTF msg]))"
    by (auto simp: lpc43xx_cmd_mkboot_valid_bank [OF fl] Let_def)
  have e: "lpc43xx_flash_erase h f addr len tr = (- 1, ?tr0)"
    using b by (auto simp: lpc43xx_flash_erase_def split: prod.splits)
  from a b c d e show ?thesis by (simp add: Let_def)
qed

theorem flash_init_failure_not_propagated_witness:
  "iap_rom (simulated_hw 0 0 [7]) example_flash
     (snd (lpc43xx_flash_init (simulated_hw 0 0 [7]) example_flash [])) \<noteq> IAP_STATUS_CMD_SUCCESS \<and>
   (\<exists>ok rest. lpc43xx_mass_erase (simulated_hw 0 0 [7]) example_flash_target [] =
      Some (ok, [MEM_WRITE32 LPC43xx_CGU_CPU_CLK
                   (LPC43xx_CGU_BASE_CLK_AUTOBLOCK OR LPC43xx_CGU_BASE_CLK_SEL_IRC),
                 IAP_CALL IAP_CMD_INIT [],
                 IAP_CALL IAP_CMD_PREPARE [0, 14, 0]] @ rest)) \<and>
   (\<exists>ok msg. lpc43xx_cmd_mkboot (simulated_hw 0 0 [7]) example_flash_target 2 [''mkboot'', ''1''] [] =
      Some (ok, [MEM_WRITE32 LPC43xx_CGU_CPU_CLK
                   (LPC43xx_CGU_BASE_CLK_AUTOBLOCK OR LPC43xx_CGU_BASE_CLK_SEL_IRC),
                 IAP_CALL IAP_CMD_INIT [],
                 IAP_CALL IAP_CMD_SET_ACTIVE_BANK [1, CPU_CLK_KHZ],
                 TC_PRINTF msg])) \<and>
   lpc43xx_flash_erase (simulated_hw 0 0 [7]) example_flash 0x1A000000 0x2000 [] =
     (- 1, [MEM_WRITE32 LPC43xx_CGU_CPU_CLK
              (LPC43xx_CGU_BASE_CLK_AUTOBLOCK OR LPC43xx_CGU_BASE_CLK_SEL_IRC),
            IAP_CALL IAP_CMD_INIT []])"
proof -
  have tr0: "snd (lpc43xx_flash_init (simulated_hw 0 0 [7]) example_flash []) =
               [MEM_WRITE32 LPC43xx_CGU_CPU_CLK
                  (LPC43xx_CGU_BASE_CLK_AUTOBLOCK OR LPC43xx_CGU_BASE_CLK_SEL_IRC),
                IAP_CALL IAP_CMD_INIT []]"
    by (simp add: simulated_hw_flash_init Let_def)
  have ns: "iap_rom (simulated_hw 0 0 [7]) example_flash
              (snd (lpc43xx_flash_init (simulated_hw 0 0 [7]) example_flash [])) \<noteq>
            IAP_STATUS_CMD_SUCCESS"
    by (simp add: tr0 simulated_hw_iap_rom IAP_STATUS_CMD_SUCCESS_def)
  have args: "(2 :: int) = 2 \<and> 2 \<le> length [''mkboot'', ''1''] \<and>
              (word_of_nat (strtoul ([''mkboot'', ''1''] ! 1) 0) :: uint32) \<le> 1"
    by (simp add: strtoul_examples)
  from flash_init_failure_not_propagated
         [OF example_flash_target_flash ns, of 2 "[''mkboot'', ''1'']" "0x1A000000" "0x2000"]
       args ns
  show ?thesis
    by (simp add: Let_def tr0 strtoul_examples)
qed

end
